theory Spec2Isabelle
  imports Complex_Main "HOL-Library.Multiset"
begin

section \<open>The host: files, paths, JSON, numbers and the clock\<close>

text \<open>
  The TypeScript sources run on Node. What they take from the platform is made explicit:
  the file system is a value passed in and returned, every reading of the clock is an
  argument, and the built-ins whose code is not part of the repository (\<open>path.join\<close>,
  \<open>path.dirname\<close>, \<open>JSON.stringify\<close>, \<open>JSON.parse\<close>, the rounding of the arithmetic on
  numbers) are the fields of a record \<open>host\<close>.
  A JavaScript string is a list of code units; the model keeps the code units 0..255.
\<close>

datatype js_error = ENOENT | EOTHER | TypeError | NotAnEntry

text \<open>
  \<open>ENOENT\<close> and \<open>EOTHER\<close> are the rejections of the file operations (\<open>err.code\<close> is
  "ENOENT", or anything else); \<open>TypeError\<close> is the exception of the language itself, thrown
  when a value is called or iterated that is not a function or an array.
  A path holds a file or nothing; \<open>faulty\<close> marks the paths on which every operation
  fails with an error other than ENOENT (a directory in the way, a permission).
\<close>

record filesystem =
  files :: "string \<rightharpoonup> string"
  faulty :: "string \<Rightarrow> bool"

definition readFile :: "filesystem \<Rightarrow> string \<Rightarrow> js_error + string" where
  "readFile fs p =
     (if faulty fs p then Inl EOTHER
      else case files fs p of None \<Rightarrow> Inl ENOENT | Some c \<Rightarrow> Inr c)"

definition writeFile :: "filesystem \<Rightarrow> string \<Rightarrow> string \<Rightarrow> js_error + filesystem" where
  "writeFile fs p c =
     (if faulty fs p then Inl EOTHER else Inr (fs\<lparr>files := (files fs)(p \<mapsto> c)\<rparr>))"

definition mkdir :: "filesystem \<Rightarrow> string \<Rightarrow> js_error + filesystem" where
  \<comment> \<open>\<open>fs.mkdir(dir, { recursive: true })\<close>: directories hold no content of their own\<close>
  "mkdir fs d = (if faulty fs d then Inl EOTHER else Inr fs)"

definition access :: "filesystem \<Rightarrow> string \<Rightarrow> js_error + unit" where
  "access fs p =
     (if faulty fs p then Inl EOTHER
      else case files fs p of None \<Rightarrow> Inl ENOENT | Some _ \<Rightarrow> Inr ())"

text \<open>
  A \<open>Date\<close> object, by what the sources read from it: the time in milliseconds, the
  ISO text (which is in UTC), and the hour and the day of the month in local time
  (\<open>detectResearchTopics\<close> reads \<open>getDate\<close> to step back one day).
\<close>

record js_date =
  getTime :: int
  toISOString :: string
  getHours :: int
  getDate :: int

subsection \<open>Strings\<close>

fun split_char :: "char \<Rightarrow> string \<Rightarrow> string list" where
  "split_char c [] = [[]]"
| "split_char c (x # xs) =
     (if x = c then [] # split_char c xs
      else (case split_char c xs of
              [] \<Rightarrow> [[x]]
            | l # ls \<Rightarrow> (x # l) # ls))"

fun join :: "string \<Rightarrow> string list \<Rightarrow> string" where
  "join sep [] = []"
| "join sep [l] = l"
| "join sep (l # m # ls) = l @ sep @ join sep (m # ls)"

definition formatDate :: "js_date \<Rightarrow> string" where
  \<comment> \<open>\<open>date.toISOString().split("T")[0]\<close>\<close>
  "formatDate d = (case split_char CHR ''T'' (toISOString d) of [] \<Rightarrow> [] | l # _ \<Rightarrow> l)"

subsection \<open>Characters\<close>

definition is_space :: "char \<Rightarrow> bool" where
  \<comment> \<open>\<open>\s\<close> and the characters \<open>trim()\<close> strips: tab, LF, VT, FF, CR, space, NBSP\<close>
  "is_space c = (c \<in> {CHR 0x09, CHR 0x0A, CHR 0x0B, CHR 0x0C, CHR 0x0D, CHR 0x20, CHR 0xA0})"

definition is_line_terminator :: "char \<Rightarrow> bool" where
  \<comment> \<open>what \<open>.\<close> does not match\<close>
  "is_line_terminator c = (c = CHR 0x0A \<or> c = CHR 0x0D)"

definition is_lower_az :: "char \<Rightarrow> bool" where
  "is_lower_az c = (97 \<le> (of_char c :: nat) \<and> (of_char c :: nat) \<le> 122)"

definition is_upper_az :: "char \<Rightarrow> bool" where
  "is_upper_az c = (65 \<le> (of_char c :: nat) \<and> (of_char c :: nat) \<le> 90)"

definition is_digit :: "char \<Rightarrow> bool" where
  "is_digit c = (48 \<le> (of_char c :: nat) \<and> (of_char c :: nat) \<le> 57)"

definition is_word :: "char \<Rightarrow> bool" where
  \<comment> \<open>\<open>\w\<close>\<close>
  "is_word c = (is_lower_az c \<or> is_upper_az c \<or> is_digit c \<or> c = CHR ''_'')"

definition toLowerCase_char :: "char \<Rightarrow> char" where
  \<comment> \<open>A to Z, and the Latin-1 capitals 0xC0 to 0xDE but for the multiplication sign 0xD7\<close>
  "toLowerCase_char c =
     (let n = (of_char c :: nat) in
      if (65 \<le> n \<and> n \<le> 90) \<or> (192 \<le> n \<and> n \<le> 222 \<and> n \<noteq> 215) then char_of (n + 32) else c)"

definition toUpperCase_az :: "char \<Rightarrow> char" where
  "toUpperCase_az c = (if is_lower_az c then char_of ((of_char c :: nat) - 32) else c)"

definition toLowerCase :: "string \<Rightarrow> string" where
  "toLowerCase s = map toLowerCase_char s"

definition trim :: "string \<Rightarrow> string" where
  "trim s = rev (dropWhile is_space (rev (dropWhile is_space s)))"

fun startsWith :: "string \<Rightarrow> string \<Rightarrow> bool" where
  "startsWith s [] = True"
| "startsWith [] (p # ps) = False"
| "startsWith (c # cs) (p # ps) = (c = p \<and> startsWith cs ps)"

fun js_includes :: "string \<Rightarrow> string \<Rightarrow> bool" where
  \<comment> \<open>\<open>s.includes(sub)\<close>\<close>
  "js_includes [] sub = (sub = [])"
| "js_includes (c # cs) sub = (startsWith (c # cs) sub \<or> js_includes cs sub)"

fun split_ws_from :: "bool \<Rightarrow> string \<Rightarrow> string list" where
  \<comment> \<open>the flag: the character before was part of a separator\<close>
  "split_ws_from sep [] = [[]]"
| "split_ws_from sep (c # cs) =
     (if is_space c then
        (if sep then split_ws_from True cs else [] # split_ws_from True cs)
      else (case split_ws_from False cs of
              [] \<Rightarrow> [[c]]
            | l # ls \<Rightarrow> (c # l) # ls))"

definition split_ws :: "string \<Rightarrow> string list" where
  \<comment> \<open>\<open>s.split(/\s+/)\<close>\<close>
  "split_ws s = split_ws_from False s"

definition set_add :: "'a \<Rightarrow> 'a list \<Rightarrow> 'a list" where
  \<comment> \<open>\<open>Set.prototype.add\<close>, and \<open>if (!xs.includes(x)) xs.push(x)\<close>: insertion order is kept\<close>
  "set_add x xs = (if x \<in> set xs then xs else xs @ [x])"

definition dedup :: "'a list \<Rightarrow> 'a list" where
  \<comment> \<open>\<open>[...new Set(xs)]\<close>\<close>
  "dedup xs = foldl (\<lambda>acc x. set_add x acc) [] xs"

subsection \<open>Objects used as dictionaries\<close>

text \<open>
  A plain object is kept as the list of its own properties in creation order. Reading
  \<open>obj[key]\<close> finds an own property, or else a property of \<open>Object.prototype\<close>, or else
  \<open>undefined\<close>. \<open>Object.values\<close> and \<open>Object.entries\<close> enumerate the array indices first, in
  ascending order, and then the other keys in creation order.
\<close>

datatype 'v js_lookup = Own 'v | Inherited | Undefined

definition object_prototype_keys :: "string list" where
  "object_prototype_keys =
     [''constructor'', ''__defineGetter__'', ''__defineSetter__'', ''hasOwnProperty'',
      ''__lookupGetter__'', ''__lookupSetter__'', ''isPrototypeOf'', ''propertyIsEnumerable'',
      ''toString'', ''valueOf'', ''__proto__'', ''toLocaleString'']"

definition obj_lookup :: "(string \<times> 'v) list \<Rightarrow> string \<Rightarrow> 'v js_lookup" where
  "obj_lookup obj k =
     (case map_of obj k of
        Some v \<Rightarrow> Own v
      | None \<Rightarrow> if k \<in> set object_prototype_keys then Inherited else Undefined)"

fun obj_set :: "string \<Rightarrow> 'v \<Rightarrow> (string \<times> 'v) list \<Rightarrow> (string \<times> 'v) list" where
  \<comment> \<open>\<open>obj[k] = v\<close>, for a key other than \<open>__proto__\<close>\<close>
  "obj_set k v [] = [(k, v)]"
| "obj_set k v (p # ps) = (if fst p = k then (k, v) # ps else p # obj_set k v ps)"

definition digits_value :: "string \<Rightarrow> nat" where
  "digits_value s = foldl (\<lambda>n c. 10 * n + ((of_char c :: nat) - 48)) 0 s"

definition is_array_index :: "string \<Rightarrow> bool" where
  \<comment> \<open>a canonical numeric string below \<open>2^32 - 1\<close>\<close>
  "is_array_index k =
     (k \<noteq> [] \<and> list_all is_digit k \<and> (k = ''0'' \<or> \<not> startsWith k ''0'')
      \<and> digits_value k < 4294967295)"

definition obj_entries :: "(string \<times> 'v) list \<Rightarrow> (string \<times> 'v) list" where
  "obj_entries obj =
     sort_key (\<lambda>p. digits_value (fst p)) (filter (\<lambda>p. is_array_index (fst p)) obj)
       @ filter (\<lambda>p. \<not> is_array_index (fst p)) obj"

definition obj_values :: "(string \<times> 'v) list \<Rightarrow> 'v list" where
  "obj_values obj = map snd (obj_entries obj)"

section \<open>The state records and the host\<close>

record DreamState =
  lastDreamAt :: "int option"
  lastUserActivityAt :: "int option"
  pendingConsolidation :: "string list"
  insights :: "string list"

record CompletedTopic =
  topic :: string
  completedAt :: int
  articlesFound :: int

record MorningReport =
  date :: string
  dreamSummary :: "string option"
  researchSummary :: "string option"
  pendingQuestions :: "string list"
  suggestedTopics :: "string list"

record ResearchState =
  lastResearchAt :: "int option"
  topicsQueue :: "string list"
  completedTopics :: "CompletedTopic list"
  pendingReport :: "MorningReport option"

record AutonomousConfigSimple =
  dreamModeEnabled :: "bool option"
  researchModeEnabled :: "bool option"
  morningReportEnabled :: "bool option"
  dreamIdleHours :: "real option"
  researchIdleHours :: "real option"
  morningReportHour :: "real option"

text \<open>
  \<open>parse_dream\<close> and \<open>parse_research\<close> are \<open>JSON.parse\<close> at the type the caller declares
  for its result; \<open>None\<close> is the exception it throws on text that is not JSON.
  A number of the language is a binary64 value, and a product is the exact product rounded
  to such a value: \<open>number_round\<close> is that rounding, and \<open>js_times\<close> the operator \<open>*\<close>.
\<close>

record host =
  path_join :: "string list \<Rightarrow> string"
  path_dirname :: "string \<Rightarrow> string"
  stringify_dream :: "DreamState \<Rightarrow> string"
  parse_dream :: "string \<Rightarrow> DreamState option"
  stringify_research :: "ResearchState \<Rightarrow> string"
  parse_research :: "string \<Rightarrow> ResearchState option"
  number_round :: "real \<Rightarrow> real"

definition js_times :: "host \<Rightarrow> real \<Rightarrow> real \<Rightarrow> real" where
  "js_times h a b = number_round h (a * b)"

section \<open>Core memory: the index\<close>

datatype MemoryTier = Core | Contextual | Archival

fun tier_name :: "MemoryTier \<Rightarrow> string" where
  "tier_name Core = ''core''"
| "tier_name Contextual = ''contextual''"
| "tier_name Archival = ''archival''"

text \<open>
  \<open>MemoryIndexEntry\<close> and \<open>MemoryNode\<close> have six fields in common; \<open>MemoryHead\<close> holds them.
  The field \<open>id\<close> is written \<open>id'\<close>.
\<close>

record MemoryHead =
  id' :: string
  title :: string
  "keywords" :: "string list"
  tier :: MemoryTier
  createdAt :: int
  updatedAt :: int

record MemoryIndexEntry = MemoryHead +
  filePath :: string

record MemoryNode = MemoryHead +
  content :: string
  accessCount :: int
  lastAccessedAt :: int

record MemoryIndex =
  nodes :: "(string \<times> MemoryIndexEntry) list"
  keywordMap :: "(string \<times> string list) list"

record CoreMemoryConfig =
  enabled :: "bool option"
  indexPath :: "string option"
  nodesDir :: "string option"
  maxTokens :: "int option"
  tiers :: "MemoryTier list option"
  autoCreate :: "bool option"
  coreKeywords :: "string list option"

record MemoryInjectionResult =
  injected :: bool
  result_nodes :: "MemoryNode list"
  totalTokens :: int
  matchedKeywords :: "string list"

definition DEFAULT_INDEX_PATH :: string where
  "DEFAULT_INDEX_PATH = ''memory/index.md''"

definition DEFAULT_NODES_DIR :: string where
  "DEFAULT_NODES_DIR = ''memory/nodes''"

definition DEFAULT_MAX_TOKENS :: int where
  "DEFAULT_MAX_TOKENS = 4000"

definition DEFAULT_TIERS :: "MemoryTier list" where
  "DEFAULT_TIERS = [Core, Contextual]"

definition CHARS_PER_TOKEN :: int where
  "CHARS_PER_TOKEN = 4"

definition emptyIndex :: MemoryIndex where
  "emptyIndex = \<lparr>nodes = [], keywordMap = []\<rparr>"

subsection \<open>The entry pattern\<close>

text \<open>
  \<open>/^-\s*\[([^\]]+)\]\(([^)]+)\)\s*-?\s*keywords?:\s*(.+)$/i\<close>, read left to right. Every
  greedy piece is followed by a character it cannot match itself, so giving characters back
  never helps, but for the last \<open>\s*\<close>: when nothing follows the blanks, \<open>(.+)\<close> takes the
  last blank.
\<close>

definition match_label :: "string \<Rightarrow> string option" where
  \<comment> \<open>\<open>keywords?:\<close>, ignoring case; the result is what follows the colon\<close>
  "match_label s =
     (if toLowerCase (take 7 s) = ''keyword'' then
        (case drop 7 s of
           [] \<Rightarrow> None
         | c # r \<Rightarrow>
             if c = CHR '':'' then Some r
             else if toLowerCase_char c = CHR ''s'' then
               (case r of [] \<Rightarrow> None | c' # r' \<Rightarrow> if c' = CHR '':'' then Some r' else None)
             else None)
      else None)"

definition match_tail :: "string \<Rightarrow> string option" where
  \<comment> \<open>\<open>\s*(.+)$\<close>; the result is the group\<close>
  "match_tail s =
     (let ws = takeWhile is_space s; rest = dropWhile is_space s in
      if rest \<noteq> [] then
        (if list_ex is_line_terminator rest then None else Some rest)
      else if ws \<noteq> [] \<and> \<not> is_line_terminator (last ws) then Some [last ws]
      else None)"

definition match_entry :: "string \<Rightarrow> (string \<times> string \<times> string) option" where
  "match_entry s =
     (case s of
        [] \<Rightarrow> None
      | c0 # r0 \<Rightarrow>
        if c0 \<noteq> CHR ''-'' then None
        else
          (case dropWhile is_space r0 of
             [] \<Rightarrow> None
           | c1 # r1 \<Rightarrow>
             if c1 \<noteq> CHR ''['' then None
             else
               let g1 = takeWhile (\<lambda>c. c \<noteq> CHR '']'') r1;
                   r2 = dropWhile (\<lambda>c. c \<noteq> CHR '']'') r1
               in if g1 = [] \<or> \<not> startsWith r2 '']('' then None
                  else
                    let r3 = drop 2 r2;
                        g2 = takeWhile (\<lambda>c. c \<noteq> CHR '')'') r3;
                        r4 = dropWhile (\<lambda>c. c \<noteq> CHR '')'') r3
                    in if g2 = [] \<or> r4 = [] then None
                       else
                         let r5 = dropWhile is_space (tl r4);
                             r6 = (if startsWith r5 ''-'' then tl r5 else r5);
                             r7 = dropWhile is_space r6
                         in (case match_label r7 of
                               None \<Rightarrow> None
                             | Some r8 \<Rightarrow>
                                 map_option (\<lambda>g3. (g1, g2, g3)) (match_tail r8))))"

subsection \<open>Parsing and serializing\<close>

fun slug_from :: "bool \<Rightarrow> string \<Rightarrow> string" where
  \<comment> \<open>the flag: the character before was part of a run that is already replaced\<close>
  "slug_from run [] = []"
| "slug_from run (c # cs) =
     (if is_lower_az c \<or> is_digit c then c # slug_from False cs
      else if run then slug_from True cs
      else CHR ''_'' # slug_from True cs)"

definition makeId :: "string \<Rightarrow> string" where
  \<comment> \<open>\<open>title.toLowerCase().replace(/[^a-z0-9]+/g, "_")\<close>\<close>
  "makeId t = slug_from False (toLowerCase t)"

fun add_keywords ::
  "string \<Rightarrow> string list \<Rightarrow> (string \<times> string list) list
    \<Rightarrow> js_error + (string \<times> string list) list" where
  "add_keywords i [] km = Inr km"
| "add_keywords i (k # ks) km =
     (case obj_lookup km k of
        Undefined \<Rightarrow> add_keywords i ks (obj_set k [i] km)
      | Inherited \<Rightarrow> Inl TypeError
      | Own ids \<Rightarrow> add_keywords i ks (if i \<in> set ids then km else obj_set k (ids @ [i]) km))"

definition putEntry :: "MemoryIndex \<Rightarrow> MemoryIndexEntry \<Rightarrow> js_error + MemoryIndex" where
  \<comment> \<open>\<open>index.nodes[id] = entry\<close>, then the loop over the entry's keywords that fills the
     keyword map: the same statements in \<open>parseMemoryIndexMarkdown\<close> and \<open>createMemoryNode\<close>\<close>
  "putEntry index entry =
     (case add_keywords (id' entry) (keywords entry) (keywordMap index) of
        Inl e \<Rightarrow> Inl e
      | Inr km \<Rightarrow> Inr \<lparr>nodes = obj_set (id' entry) entry (nodes index), keywordMap = km\<rparr>)"

text \<open>
  The body of the loop over the lines. Every entry reads \<open>Date.now()\<close> twice, once for
  \<open>createdAt\<close> and once for \<open>updatedAt\<close>: for the entry on line \<open>k\<close> (the first line is
  line 0) the two readings are \<open>clock (2 * k)\<close> and \<open>clock (2 * k + 1)\<close>.
\<close>

definition parse_line ::
  "(nat \<Rightarrow> int) \<Rightarrow> nat \<Rightarrow> MemoryIndex \<times> MemoryTier \<Rightarrow> string
    \<Rightarrow> js_error + MemoryIndex \<times> MemoryTier" where
  "parse_line clock k st line =
     (let index = fst st; currentTier = snd st; trimmed = trim line in
      if js_includes (toLowerCase trimmed) ''## core'' then Inr (index, Core)
      else if js_includes (toLowerCase trimmed) ''## contextual'' then Inr (index, Contextual)
      else if js_includes (toLowerCase trimmed) ''## archival'' then Inr (index, Archival)
      else
        (case match_entry trimmed of
           None \<Rightarrow> Inr (index, currentTier)
         | Some (g1, g2, g3) \<Rightarrow>
             let t = trim g1;
                 fp = trim g2;
                 keywordsStr = trim g3;
                 kws = map (\<lambda>k. toLowerCase (trim k)) (split_char CHR '','' keywordsStr);
                 i = makeId t;
                 entry = \<lparr>id' = i, title = t, keywords = kws, tier = currentTier,
                          createdAt = clock (2 * k), updatedAt = clock (2 * k + 1),
                          filePath = fp\<rparr>
             in (case putEntry index entry of
                   Inl e \<Rightarrow> Inl e
                 | Inr index' \<Rightarrow> Inr (index', currentTier))))"

fun parse_lines ::
  "(nat \<Rightarrow> int) \<Rightarrow> nat \<Rightarrow> MemoryIndex \<times> MemoryTier \<Rightarrow> string list
    \<Rightarrow> js_error + MemoryIndex \<times> MemoryTier" where
  \<comment> \<open>the loop, from line \<open>k\<close> on\<close>
  "parse_lines clock k st [] = Inr st"
| "parse_lines clock k st (l # ls) =
     (case parse_line clock k st l of
        Inl e \<Rightarrow> Inl e
      | Inr st' \<Rightarrow> parse_lines clock (Suc k) st' ls)"

definition parseMemoryIndexMarkdown :: "(nat \<Rightarrow> int) \<Rightarrow> string \<Rightarrow> js_error + MemoryIndex" where
  "parseMemoryIndexMarkdown clock markdown =
     (case parse_lines clock 0 (emptyIndex, Contextual) (split_char CHR 0x0A markdown) of
        Inl e \<Rightarrow> Inl e
      | Inr st \<Rightarrow> Inr (fst st))"

definition entry_line :: "MemoryIndexEntry \<Rightarrow> string" where
  "entry_line n =
     ''- ['' @ title n @ '']('' @ filePath n @ '') - keywords: '' @ join '', '' (keywords n)"

definition tier_heading :: "MemoryTier \<Rightarrow> string" where
  \<comment> \<open>\<open>`## ${tier.charAt(0).toUpperCase() + tier.slice(1)} Memories`\<close>\<close>
  "tier_heading t =
     ''## '' @ (case tier_name t of [] \<Rightarrow> [] | c # cs \<Rightarrow> toUpperCase_az c # cs) @ '' Memories''"

definition tier_section :: "MemoryIndex \<Rightarrow> MemoryTier \<Rightarrow> string list" where
  "tier_section index t =
     (let ns = filter (\<lambda>n. tier n = t) (obj_values (nodes index)) in
      if ns = [] then [] else [tier_heading t, ''''] @ map entry_line ns @ [''''])"

definition index_lines :: "MemoryIndex \<Rightarrow> string list" where
  "index_lines index =
     [''# Memory Index'', '''',
      ''> Auto-generated by Core Memory System. Edit with care.'', '''']
       @ concat (map (tier_section index) [Core, Contextual, Archival])"

definition serializeMemoryIndexToMarkdown :: "MemoryIndex \<Rightarrow> string" where
  "serializeMemoryIndexToMarkdown index = join [CHR 0x0A] (index_lines index)"

definition loadMemoryIndex ::
  "filesystem \<Rightarrow> (nat \<Rightarrow> int) \<Rightarrow> string \<Rightarrow> js_error + MemoryIndex option" where
  "loadMemoryIndex fs clock path =
     (case readFile fs path of
        Inl e \<Rightarrow> if e = ENOENT then Inr None else Inl e
      | Inr c \<Rightarrow>
          (case parseMemoryIndexMarkdown clock c of
             Inl e \<Rightarrow> Inl e
           | Inr index \<Rightarrow> Inr (Some index)))"

definition saveMemoryIndex ::
  "host \<Rightarrow> filesystem \<Rightarrow> string \<Rightarrow> MemoryIndex \<Rightarrow> js_error + filesystem" where
  "saveMemoryIndex h fs path index =
     (let markdown = serializeMemoryIndexToMarkdown index in
      case mkdir fs (path_dirname h path) of
        Inl e \<Rightarrow> Inl e
      | Inr fs1 \<Rightarrow> writeFile fs1 path markdown)"

section \<open>Core memory: nodes\<close>

definition loadMemoryNode ::
  "host \<Rightarrow> filesystem \<Rightarrow> int \<Rightarrow> string \<Rightarrow> MemoryIndexEntry \<Rightarrow> js_error + MemoryNode option" where
  "loadMemoryNode h fs now workspaceDir entry =
     (let nodePath = path_join h [workspaceDir, filePath entry] in
      case readFile fs nodePath of
        Inl e \<Rightarrow> if e = ENOENT then Inr None else Inl e
      | Inr c \<Rightarrow>
          Inr (Some \<lparr>id' = id' entry, title = title entry, keywords = keywords entry,
                     tier = tier entry, createdAt = createdAt entry,
                     updatedAt = updatedAt entry, content = c, accessCount = 0,
                     lastAccessedAt = now\<rparr>))"

text \<open>
  The readings of the clock in one call of \<open>createMemoryNode\<close>, in the order of the call:
  \<open>new Date()\<close> for the text of the node, the readings of the parser when the index is
  loaded, and \<open>Date.now()\<close> for \<open>createdAt\<close>, for \<open>updatedAt\<close> and for \<open>lastAccessedAt\<close>.
\<close>

record creation_times =
  at_start :: js_date
  at_parse :: "nat \<Rightarrow> int"
  at_created :: int
  at_updated :: int
  at_accessed :: int

definition newEntry ::
  "host \<Rightarrow> creation_times \<Rightarrow> string \<Rightarrow> string list \<Rightarrow> MemoryTier \<Rightarrow> MemoryIndexEntry" where
  "newEntry h tm ttl kws tr =
     \<lparr>id' = makeId ttl, title = ttl, keywords = map toLowerCase kws, tier = tr,
      createdAt = at_created tm, updatedAt = at_updated tm,
      filePath = path_join h [DEFAULT_NODES_DIR, makeId ttl @ ''.md'']\<rparr>"

definition indexOrEmpty :: "filesystem \<Rightarrow> (nat \<Rightarrow> int) \<Rightarrow> string \<Rightarrow> js_error + MemoryIndex" where
  \<comment> \<open>\<open>(await loadMemoryIndex(path)) || { version: 1, nodes: {}, keywordMap: {} }\<close>\<close>
  "indexOrEmpty fs clock path =
     (case loadMemoryIndex fs clock path of
        Inl e \<Rightarrow> Inl e
      | Inr None \<Rightarrow> Inr emptyIndex
      | Inr (Some index) \<Rightarrow> Inr index)"

definition createMemoryNode ::
  "host \<Rightarrow> filesystem \<Rightarrow> creation_times \<Rightarrow> string \<Rightarrow> string \<Rightarrow> string \<Rightarrow> string list
    \<Rightarrow> string \<Rightarrow> MemoryTier option \<Rightarrow> js_error + MemoryNode \<times> filesystem" where
  \<comment> \<open>the arguments after the clock: workspaceDir, indexPath, title, keywords, content, tier\<close>
  "createMemoryNode h fs tm workspaceDir ipath ttl kws body topt =
     (let tr = (case topt of None \<Rightarrow> Contextual | Some t \<Rightarrow> t);
          i = makeId ttl;
          fp = path_join h [DEFAULT_NODES_DIR, i @ ''.md''];
          fullPath = path_join h [workspaceDir, fp];
          nodeContent = join [CHR 0x0A]
            [''# '' @ ttl, '''', ''> Keywords: '' @ join '', '' kws,
             ''> Created: '' @ toISOString (at_start tm), '''', body]
      in case mkdir fs (path_dirname h fullPath) of
           Inl e \<Rightarrow> Inl e
         | Inr fs1 \<Rightarrow>
         (case writeFile fs1 fullPath nodeContent of
           Inl e \<Rightarrow> Inl e
         | Inr fs2 \<Rightarrow>
         (case indexOrEmpty fs2 (at_parse tm) (path_join h [workspaceDir, ipath]) of
           Inl e \<Rightarrow> Inl e
         | Inr index \<Rightarrow>
         (let entry = newEntry h tm ttl kws tr in
          case putEntry index entry of
           Inl e \<Rightarrow> Inl e
         | Inr index' \<Rightarrow>
         (case saveMemoryIndex h fs2 (path_join h [workspaceDir, ipath]) index' of
           Inl e \<Rightarrow> Inl e
         | Inr fs3 \<Rightarrow>
             Inr (\<lparr>id' = i, title = ttl, keywords = keywords entry, tier = tr,
                   createdAt = createdAt entry, updatedAt = updatedAt entry,
                   content = nodeContent, accessCount = 0,
                   lastAccessedAt = at_accessed tm\<rparr>,
                  fs3))))))"

section \<open>Core memory: injection\<close>

fun phrases :: "string list \<Rightarrow> string list" where
  "phrases (a # b # c # ws) =
     (a @ '' '' @ b) # (a @ '' '' @ b @ '' '' @ c) # phrases (b # c # ws)"
| "phrases [a, b] = [a @ '' '' @ b]"
| "phrases ws = []"

definition extractKeywordsFromContext :: "string \<Rightarrow> string list" where
  "extractKeywordsFromContext s =
     (let words = filter (\<lambda>w. length w > 2)
            (split_ws (map (\<lambda>c. if is_word c \<or> is_space c then c else CHR '' '')
               (toLowerCase s)))
      in dedup (words @ phrases words))"

definition hit ::
  "MemoryIndex \<Rightarrow> MemoryTier list \<Rightarrow> string \<Rightarrow> string list \<times> string list \<Rightarrow> string
    \<Rightarrow> string list \<times> string list" where
  \<comment> \<open>the body of both loops over node ids; the state is matchedNodeIds and matchedKeywords\<close>
  "hit index trs kw acc nodeId =
     (case obj_lookup (nodes index) nodeId of
        Own node \<Rightarrow>
          if tier node \<in> set trs then (set_add nodeId (fst acc), set_add kw (snd acc)) else acc
      | Inherited \<Rightarrow> acc
      | Undefined \<Rightarrow> acc)"

definition partial_hits ::
  "MemoryIndex \<Rightarrow> MemoryTier list \<Rightarrow> string \<Rightarrow> string list \<times> string list
    \<Rightarrow> string list \<times> string list" where
  "partial_hits index trs keyword acc =
     foldl (\<lambda>a p.
         if js_includes (fst p) keyword \<or> js_includes keyword (fst p)
         then foldl (hit index trs (fst p)) a (snd p) else a)
       acc (obj_entries (keywordMap index))"

fun keyword_hits ::
  "MemoryIndex \<Rightarrow> MemoryTier list \<Rightarrow> string list \<Rightarrow> string list \<times> string list
    \<Rightarrow> js_error + string list \<times> string list" where
  "keyword_hits index trs [] acc = Inr acc"
| "keyword_hits index trs (keyword # ks) acc =
     (case obj_lookup (keywordMap index) keyword of
        Inherited \<Rightarrow> Inl TypeError
      | Undefined \<Rightarrow> keyword_hits index trs ks (partial_hits index trs keyword acc)
      | Own nodeIds \<Rightarrow>
          keyword_hits index trs ks
            (partial_hits index trs keyword (foldl (hit index trs keyword) acc nodeIds)))"

fun entries_of :: "MemoryIndex \<Rightarrow> string list \<Rightarrow> js_error + MemoryIndexEntry list" where
  \<comment> \<open>\<open>ids.map((id) => index.nodes[id]).filter((n) => n !== undefined)\<close>; an inherited
     property is not an entry, and the model stops there\<close>
  "entries_of index [] = Inr []"
| "entries_of index (i # is) =
     (case obj_lookup (nodes index) i of
        Inherited \<Rightarrow> Inl NotAnEntry
      | Undefined \<Rightarrow> entries_of index is
      | Own n \<Rightarrow> (case entries_of index is of Inl e \<Rightarrow> Inl e | Inr ns \<Rightarrow> Inr (n # ns)))"

definition core_ids :: "MemoryIndex \<Rightarrow> MemoryTier list \<Rightarrow> string list" where
  "core_ids index trs =
     (if Core \<in> set trs
      then foldl (\<lambda>acc n. if tier n = Core then set_add (id' n) acc else acc) []
             (obj_values (nodes index))
      else [])"

definition findMatchingNodes ::
  "MemoryIndex \<Rightarrow> string list \<Rightarrow> MemoryTier list
    \<Rightarrow> js_error + MemoryIndexEntry list \<times> string list" where
  "findMatchingNodes index kws trs =
     (case keyword_hits index trs kws (core_ids index trs, []) of
        Inl e \<Rightarrow> Inl e
      | Inr acc \<Rightarrow>
          (case entries_of index (fst acc) of
             Inl e \<Rightarrow> Inl e
           | Inr es \<Rightarrow> Inr (es, snd acc)))"

definition tierOrder :: "MemoryTier \<Rightarrow> int" where
  "tierOrder t = (case t of Core \<Rightarrow> 0 | Contextual \<Rightarrow> 1 | Archival \<Rightarrow> 2)"

definition compareEntries :: "MemoryIndexEntry \<Rightarrow> MemoryIndexEntry \<Rightarrow> int" where
  "compareEntries a b =
     (let tierDiff = tierOrder (tier a) - tierOrder (tier b) in
      if tierDiff \<noteq> 0 then tierDiff else updatedAt b - updatedAt a)"

fun insert_by :: "('a \<Rightarrow> 'a \<Rightarrow> int) \<Rightarrow> 'a \<Rightarrow> 'a list \<Rightarrow> 'a list" where
  "insert_by cmp x [] = [x]"
| "insert_by cmp x (y # ys) = (if cmp x y \<le> 0 then x # y # ys else y # insert_by cmp x ys)"

definition array_sort :: "('a \<Rightarrow> 'a \<Rightarrow> int) \<Rightarrow> 'a list \<Rightarrow> 'a list" where
  \<comment> \<open>\<open>Array.prototype.sort\<close> is stable; for a comparator that orders the elements its
     result is the one of a stable insertion sort\<close>
  "array_sort cmp xs = foldr (insert_by cmp) xs []"

fun load_loop ::
  "host \<Rightarrow> filesystem \<Rightarrow> int \<Rightarrow> string \<Rightarrow> int \<Rightarrow> MemoryIndexEntry list
    \<Rightarrow> MemoryNode list \<times> nat \<Rightarrow> js_error + MemoryNode list \<times> nat" where
  \<comment> \<open>the state is the array \<open>nodes\<close> and \<open>totalChars\<close>\<close>
  "load_loop h fs now workspaceDir maxChars [] acc = Inr acc"
| "load_loop h fs now workspaceDir maxChars (entry # es) acc =
     (case loadMemoryNode h fs now workspaceDir entry of
        Inl e \<Rightarrow> Inl e
      | Inr None \<Rightarrow> load_loop h fs now workspaceDir maxChars es acc
      | Inr (Some node) \<Rightarrow>
          let nodeChars = length (content node) in
          if int (snd acc + nodeChars) > maxChars \<and> fst acc \<noteq> [] then Inr acc
          else load_loop h fs now workspaceDir maxChars es
                 (fst acc @ [node], snd acc + nodeChars))"

definition notInjected :: MemoryInjectionResult where
  "notInjected = \<lparr>injected = False, result_nodes = [], totalTokens = 0, matchedKeywords = []\<rparr>"

definition assemble ::
  "host \<Rightarrow> filesystem \<Rightarrow> int \<Rightarrow> string \<Rightarrow> int \<Rightarrow> MemoryIndexEntry list \<Rightarrow> string list
    \<Rightarrow> js_error + MemoryInjectionResult" where
  \<comment> \<open>\<open>injectMemories\<close> from "Load nodes, respecting token budget" to its end\<close>
  "assemble h fs now workspaceDir maxTokens' es matched =
     (let maxChars = maxTokens' * CHARS_PER_TOKEN;
          sortedEntries = array_sort compareEntries es
      in case load_loop h fs now workspaceDir maxChars sortedEntries ([], 0) of
           Inl e \<Rightarrow> Inl e
         | Inr acc \<Rightarrow>
             Inr \<lparr>injected = (fst acc \<noteq> []), result_nodes = fst acc,
                  totalTokens = \<lceil>real (snd acc) / real_of_int CHARS_PER_TOKEN\<rceil>,
                  matchedKeywords = matched\<rparr>)"

definition configuredIndexPath :: "host \<Rightarrow> string \<Rightarrow> CoreMemoryConfig option \<Rightarrow> string" where
  \<comment> \<open>\<open>path.join(workspaceDir, config.indexPath || DEFAULT_INDEX_PATH)\<close>\<close>
  "configuredIndexPath h workspaceDir config =
     path_join h [workspaceDir,
       (case Option.bind config indexPath of
          None \<Rightarrow> DEFAULT_INDEX_PATH
        | Some p \<Rightarrow> if p = [] then DEFAULT_INDEX_PATH else p)]"

definition configuredMaxTokens :: "CoreMemoryConfig option \<Rightarrow> int" where
  \<comment> \<open>\<open>config.maxTokens || DEFAULT_MAX_TOKENS\<close>\<close>
  "configuredMaxTokens config =
     (case Option.bind config maxTokens of
        None \<Rightarrow> DEFAULT_MAX_TOKENS
      | Some n \<Rightarrow> if n = 0 then DEFAULT_MAX_TOKENS else n)"

definition configuredTiers :: "CoreMemoryConfig option \<Rightarrow> MemoryTier list" where
  \<comment> \<open>\<open>config.tiers || DEFAULT_TIERS\<close>\<close>
  "configuredTiers config =
     (case Option.bind config tiers of None \<Rightarrow> DEFAULT_TIERS | Some ts \<Rightarrow> ts)"

definition allKeywords :: "string \<Rightarrow> CoreMemoryConfig option \<Rightarrow> string list" where
  "allKeywords conversationContext config =
     (let contextKeywords = extractKeywordsFromContext conversationContext;
          coreKeywords' = (case Option.bind config coreKeywords of None \<Rightarrow> [] | Some ks \<Rightarrow> ks)
      in dedup (contextKeywords @ coreKeywords'))"

definition injectMemories ::
  "host \<Rightarrow> filesystem \<Rightarrow> (nat \<Rightarrow> int) \<Rightarrow> int \<Rightarrow> string \<Rightarrow> string \<Rightarrow> CoreMemoryConfig option
    \<Rightarrow> js_error + MemoryInjectionResult" where
  \<comment> \<open>\<open>clock\<close>: the readings of the parser when the index is loaded; \<open>now\<close>: the reading
     that \<open>loadMemoryNode\<close> puts in \<open>lastAccessedAt\<close>\<close>
  "injectMemories h fs clock now workspaceDir conversationContext config =
     (case loadMemoryIndex fs clock (configuredIndexPath h workspaceDir config) of
        Inl e \<Rightarrow> Inl e
      | Inr None \<Rightarrow> Inr notInjected
      | Inr (Some index) \<Rightarrow>
          if nodes index = [] then Inr notInjected
          else
            (case findMatchingNodes index (allKeywords conversationContext config)
                    (configuredTiers config) of
               Inl e \<Rightarrow> Inl e
             | Inr found \<Rightarrow>
                 if fst found = [] then Inr notInjected
                 else assemble h fs now workspaceDir (configuredMaxTokens config)
                        (fst found) (snd found)))"

section \<open>Autonomous behaviours: state files\<close>

definition DREAM_STATE_FILE :: string where
  "DREAM_STATE_FILE = ''.dream-state.json''"

definition RESEARCH_STATE_FILE :: string where
  "RESEARCH_STATE_FILE = ''.research-state.json''"

definition MORNING_REPORT_DIR :: string where
  "MORNING_REPORT_DIR = ''memory/reports''"

definition defaultDreamState :: DreamState where
  "defaultDreamState =
     \<lparr>lastDreamAt = None, lastUserActivityAt = None, pendingConsolidation = [], insights = []\<rparr>"

definition defaultResearchState :: ResearchState where
  "defaultResearchState =
     \<lparr>lastResearchAt = None, topicsQueue = [], completedTopics = [], pendingReport = None\<rparr>"

definition loadDreamState :: "host \<Rightarrow> filesystem \<Rightarrow> string \<Rightarrow> DreamState" where
  "loadDreamState h fs workspaceDir =
     (let statePath = path_join h [workspaceDir, DREAM_STATE_FILE] in
      case readFile fs statePath of
        Inl _ \<Rightarrow> defaultDreamState
      | Inr c \<Rightarrow>
          (case parse_dream h c of None \<Rightarrow> defaultDreamState | Some s \<Rightarrow> s))"

definition saveDreamState ::
  "host \<Rightarrow> filesystem \<Rightarrow> string \<Rightarrow> DreamState \<Rightarrow> js_error + filesystem" where
  "saveDreamState h fs workspaceDir state =
     writeFile fs (path_join h [workspaceDir, DREAM_STATE_FILE]) (stringify_dream h state)"

definition loadResearchState :: "host \<Rightarrow> filesystem \<Rightarrow> string \<Rightarrow> ResearchState" where
  "loadResearchState h fs workspaceDir =
     (let statePath = path_join h [workspaceDir, RESEARCH_STATE_FILE] in
      case readFile fs statePath of
        Inl _ \<Rightarrow> defaultResearchState
      | Inr c \<Rightarrow>
          (case parse_research h c of None \<Rightarrow> defaultResearchState | Some s \<Rightarrow> s))"

definition saveResearchState ::
  "host \<Rightarrow> filesystem \<Rightarrow> string \<Rightarrow> ResearchState \<Rightarrow> js_error + filesystem" where
  "saveResearchState h fs workspaceDir state =
     writeFile fs (path_join h [workspaceDir, RESEARCH_STATE_FILE]) (stringify_research h state)"

section \<open>Autonomous behaviours: the triggers\<close>

text \<open>
  \<open>state.lastUserActivityAt && now - state.lastUserActivityAt < idleMs\<close>: a timestamp
  field is \<open>number | null\<close>, and the guard tests it for truthiness first, so \<open>null\<close> and
  \<open>0\<close> both skip the comparison.
\<close>

definition recent :: "int option \<Rightarrow> int \<Rightarrow> real \<Rightarrow> bool" where
  "recent stamp now windowMs =
     (case stamp of None \<Rightarrow> False | Some t \<Rightarrow> t \<noteq> 0 \<and> real_of_int (now - t) < windowMs)"

definition hours_ms :: "host \<Rightarrow> real \<Rightarrow> real" where
  \<comment> \<open>\<open>hours * 60 * 60 * 1000\<close>: three products, from left to right, each of them rounded\<close>
  "hours_ms h hours = js_times h (js_times h (js_times h hours 60) 60) 1000"

definition shouldDream ::
  "host \<Rightarrow> filesystem \<Rightarrow> int \<Rightarrow> string \<Rightarrow> AutonomousConfigSimple option \<Rightarrow> bool" where
  "shouldDream h fs now workspaceDir config =
     (if Option.bind config dreamModeEnabled = Some False then False
      else
        let state = loadDreamState h fs workspaceDir;
            idleHours = (case Option.bind config dreamIdleHours of None \<Rightarrow> 3 | Some x \<Rightarrow> x);
            idleMs = hours_ms h idleHours
        in if recent (lastUserActivityAt state) now idleMs then False
           else if recent (lastDreamAt state) now (hours_ms h 6) then False
           else True)"

definition shouldResearch ::
  "host \<Rightarrow> filesystem \<Rightarrow> int \<Rightarrow> string \<Rightarrow> AutonomousConfigSimple option \<Rightarrow> bool" where
  "shouldResearch h fs now workspaceDir config =
     (if Option.bind config researchModeEnabled = Some False then False
      else
        let state = loadResearchState h fs workspaceDir;
            idleHours = (case Option.bind config researchIdleHours of None \<Rightarrow> 6 | Some x \<Rightarrow> x);
            idleMs = hours_ms h idleHours;
            dreamState = loadDreamState h fs workspaceDir
        in if recent (lastUserActivityAt dreamState) now idleMs then False
           else if recent (lastResearchAt state) now (hours_ms h 12) then False
           else True)"

definition reportPathFor :: "host \<Rightarrow> string \<Rightarrow> js_date \<Rightarrow> string" where
  \<comment> \<open>\<open>path.join(workspaceDir, MORNING_REPORT_DIR, `${formatDate(now)}.md`)\<close>\<close>
  "reportPathFor h workspaceDir now =
     path_join h [workspaceDir, MORNING_REPORT_DIR, formatDate now @ ''.md'']"

definition shouldSendMorningReport ::
  "host \<Rightarrow> filesystem \<Rightarrow> js_date \<Rightarrow> string \<Rightarrow> AutonomousConfigSimple option \<Rightarrow> bool" where
  "shouldSendMorningReport h fs now workspaceDir config =
     (if Option.bind config morningReportEnabled = Some False then False
      else
        let reportHour = (case Option.bind config morningReportHour of None \<Rightarrow> 8 | Some x \<Rightarrow> x);
            currentHour = getHours now
        in if real_of_int currentHour \<noteq> reportHour then False
           else
             (case access fs (reportPathFor h workspaceDir now) of
                Inr _ \<Rightarrow> False
              | Inl _ \<Rightarrow> True))"

section \<open>Autonomous behaviours: the recorders\<close>

definition recordActivity :: "host \<Rightarrow> filesystem \<Rightarrow> int \<Rightarrow> string \<Rightarrow> js_error + filesystem" where
  "recordActivity h fs now workspaceDir =
     (let state = loadDreamState h fs workspaceDir
      in saveDreamState h fs workspaceDir (state\<lparr>lastUserActivityAt := Some now\<rparr>))"

definition recordDream :: "host \<Rightarrow> filesystem \<Rightarrow> int \<Rightarrow> string \<Rightarrow> js_error + filesystem" where
  "recordDream h fs now workspaceDir =
     (let state = loadDreamState h fs workspaceDir
      in saveDreamState h fs workspaceDir (state\<lparr>lastDreamAt := Some now\<rparr>))"

definition recordResearch :: "host \<Rightarrow> filesystem \<Rightarrow> int \<Rightarrow> string \<Rightarrow> js_error + filesystem" where
  "recordResearch h fs now workspaceDir =
     (let state = loadResearchState h fs workspaceDir
      in saveResearchState h fs workspaceDir (state\<lparr>lastResearchAt := Some now\<rparr>))"

definition recordMorningReport ::
  "host \<Rightarrow> filesystem \<Rightarrow> js_date \<Rightarrow> string \<Rightarrow> js_error + filesystem" where
  "recordMorningReport h fs now workspaceDir =
     (let reportPath = reportPathFor h workspaceDir now in
      case mkdir fs (path_dirname h reportPath) of
        Inl e \<Rightarrow> Inl e
      | Inr fs1 \<Rightarrow>
      (case writeFile fs1 reportPath
              (''# Morning Report - '' @ formatDate now @ [CHR 0x0A, CHR 0x0A]
                 @ ''Sent at '' @ toISOString now @ [CHR 0x0A]) of
        Inl e \<Rightarrow> Inl e
      | Inr fs2 \<Rightarrow>
      (let researchState = loadResearchState h fs2 workspaceDir in
       case saveResearchState h fs2 workspaceDir (researchState\<lparr>completedTopics := []\<rparr>) of
        Inl e \<Rightarrow> Inl e
      | Inr fs3 \<Rightarrow>
      (let dreamState = loadDreamState h fs3 workspaceDir in
       saveDreamState h fs3 workspaceDir (dreamState\<lparr>insights := []\<rparr>)))))"

section \<open>Autonomous behaviours: research topics\<close>

definition count_keyword :: "(string \<times> nat) list \<Rightarrow> string \<Rightarrow> (string \<times> nat) list" where
  \<comment> \<open>\<open>keywordFrequency.set(keyword, (keywordFrequency.get(keyword) || 0) + 1)\<close>; a \<open>Map\<close>
     keeps its keys in insertion order\<close>
  "count_keyword freq keyword =
     obj_set keyword ((case map_of freq keyword of None \<Rightarrow> 0 | Some n \<Rightarrow> n) + 1) freq"

fun count_ids ::
  "MemoryIndex \<Rightarrow> string list \<Rightarrow> (string \<times> nat) list \<Rightarrow> js_error + (string \<times> nat) list" where
  "count_ids index [] freq = Inr freq"
| "count_ids index (nodeId # ids) freq =
     (case obj_lookup (nodes index) nodeId of
        Undefined \<Rightarrow> count_ids index ids freq
      | Inherited \<Rightarrow> Inl TypeError
      | Own node \<Rightarrow> count_ids index ids (foldl count_keyword freq (keywords node)))"

fun count_lists ::
  "MemoryIndex \<Rightarrow> string list list \<Rightarrow> (string \<times> nat) list
    \<Rightarrow> js_error + (string \<times> nat) list" where
  "count_lists index [] freq = Inr freq"
| "count_lists index (nodeIds # rest) freq =
     (case count_ids index nodeIds freq of
        Inl e \<Rightarrow> Inl e
      | Inr freq' \<Rightarrow> count_lists index rest freq')"

definition keywordFrequency :: "MemoryIndex \<Rightarrow> js_error + (string \<times> nat) list" where
  "keywordFrequency index = count_lists index (obj_values (keywordMap index)) []"

definition topKeywords :: "MemoryIndex \<Rightarrow> js_error + string list" where
  \<comment> \<open>\<open>[...keywordFrequency.entries()].sort((a, b) => b[1] - a[1]).slice(0, 10)\<close>, and then
     the keywords of these\<close>
  "topKeywords index =
     (case keywordFrequency index of
        Inl e \<Rightarrow> Inl e
      | Inr freq \<Rightarrow>
          Inr (map fst (take 10 (array_sort (\<lambda>a b. int (snd b) - int (snd a)) freq))))"

definition interest_cues :: "string list" where
  "interest_cues = [''interested in'', ''learn about'', ''curious about'', ''want to know'']"

definition match_cue :: "string \<Rightarrow> string \<Rightarrow> (string \<times> nat) option" where
  \<comment> \<open>one alternative of \<open>/(?:cue)\s+(\w+(?:\s+\w+)?)/i\<close> at the head of \<open>s\<close>: the text of the
     group and the length of the match\<close>
  "match_cue cue s =
     (if toLowerCase (take (length cue) s) = cue then
        let r = drop (length cue) s;
            ws = takeWhile is_space r; r1 = dropWhile is_space r;
            w1 = takeWhile is_word r1; r2 = dropWhile is_word r1;
            ws2 = takeWhile is_space r2; r3 = dropWhile is_space r2;
            w2 = takeWhile is_word r3
        in if ws = [] \<or> w1 = [] then None
           else if ws2 \<noteq> [] \<and> w2 \<noteq> [] then
             Some (w1 @ ws2 @ w2, length cue + length ws + length w1 + length ws2 + length w2)
           else Some (w1, length cue + length ws + length w1)
      else None)"

fun match_interest :: "string list \<Rightarrow> string \<Rightarrow> (string \<times> nat) option" where
  "match_interest [] s = None"
| "match_interest (cue # cues) s =
     (case match_cue cue s of None \<Rightarrow> match_interest cues s | Some m \<Rightarrow> Some m)"

fun scan_interest :: "nat \<Rightarrow> string \<Rightarrow> string list" where
  \<comment> \<open>the matches of the global pattern, left to right; the number is how many characters
     of the last match are still to be passed\<close>
  "scan_interest k [] = []"
| "scan_interest (Suc k) (c # cs) = scan_interest k cs"
| "scan_interest 0 (c # cs) =
     (case match_interest interest_cues (c # cs) of
        None \<Rightarrow> scan_interest 0 cs
      | Some m \<Rightarrow> fst m # scan_interest (snd m - 1) cs)"

definition add_topic :: "string list \<Rightarrow> string \<Rightarrow> string list" where
  "add_topic topics t =
     (if t \<noteq> [] \<and> toLowerCase t \<notin> set topics then topics @ [toLowerCase t] else topics)"

definition log_topics :: "host \<Rightarrow> filesystem \<Rightarrow> string \<Rightarrow> string list \<Rightarrow> string \<Rightarrow> string list" where
  \<comment> \<open>the body of the loop over the two dates; a log that cannot be read is passed over\<close>
  "log_topics h fs workspaceDir topics dateStr =
     (case readFile fs (path_join h [workspaceDir, ''memory/'' @ dateStr @ ''.md'']) of
        Inl e \<Rightarrow> topics
      | Inr c \<Rightarrow> foldl add_topic topics (scan_interest 0 c))"

definition detectResearchTopics ::
  "host \<Rightarrow> filesystem \<Rightarrow> js_date \<Rightarrow> js_date \<Rightarrow> string \<Rightarrow> MemoryIndex option
    \<Rightarrow> js_error + string list" where
  \<comment> \<open>\<open>today\<close> is \<open>new Date()\<close>, and \<open>yesterday\<close> the date that \<open>setDate(getDate() - 1)\<close> makes
     of it\<close>
  "detectResearchTopics h fs today yesterday workspaceDir memoryIndex =
     (case (case memoryIndex of None \<Rightarrow> Inr [] | Some index \<Rightarrow> topKeywords index) of
        Inl e \<Rightarrow> Inl e
      | Inr topics \<Rightarrow>
          Inr (foldl (log_topics h fs workspaceDir) topics
                 [formatDate today, formatDate yesterday]))"

section \<open>A reference host\<close>

text \<open>
  A concrete host, for evaluating the model: \<open>path.join\<close> as Node's POSIX version acts
  on segments that are already normalised, and a codec for the two state records that
  \<open>JSON.parse\<close> inverts.
\<close>

fun enc_nat :: "nat \<Rightarrow> string" where
  "enc_nat 0 = ''.''"
| "enc_nat (Suc n) = CHR ''1'' # enc_nat n"

fun dec_nat :: "string \<Rightarrow> (nat \<times> string) option" where
  "dec_nat [] = None"
| "dec_nat (c # cs) =
     (if c = CHR ''.'' then Some (0, cs)
      else if c = CHR ''1'' then map_option (\<lambda>(n, r). (Suc n, r)) (dec_nat cs)
      else None)"

definition enc_int :: "int \<Rightarrow> string" where
  "enc_int i = (if i < 0 then CHR ''-'' # enc_nat (nat (- i)) else CHR ''+'' # enc_nat (nat i))"

definition dec_int :: "string \<Rightarrow> (int \<times> string) option" where
  "dec_int s =
     (case s of
        [] \<Rightarrow> None
      | c # cs \<Rightarrow>
          if c = CHR ''+'' then map_option (\<lambda>(n, r). (int n, r)) (dec_nat cs)
          else if c = CHR ''-'' then map_option (\<lambda>(n, r). (- int n, r)) (dec_nat cs)
          else None)"

definition enc_option :: "('a \<Rightarrow> string) \<Rightarrow> 'a option \<Rightarrow> string" where
  "enc_option enc v = (case v of None \<Rightarrow> ''N'' | Some x \<Rightarrow> CHR ''S'' # enc x)"

definition dec_option ::
  "(string \<Rightarrow> ('a \<times> string) option) \<Rightarrow> string \<Rightarrow> ('a option \<times> string) option" where
  "dec_option dec s =
     (case s of
        [] \<Rightarrow> None
      | c # cs \<Rightarrow>
          if c = CHR ''N'' then Some (None, cs)
          else if c = CHR ''S'' then map_option (\<lambda>(x, r). (Some x, r)) (dec cs)
          else None)"

definition enc_string :: "string \<Rightarrow> string" where
  "enc_string s = enc_nat (length s) @ s"

definition dec_string :: "string \<Rightarrow> (string \<times> string) option" where
  "dec_string s =
     (case dec_nat s of
        None \<Rightarrow> None
      | Some (n, r) \<Rightarrow> if n \<le> length r then Some (take n r, drop n r) else None)"

fun dec_items ::
  "(string \<Rightarrow> ('a \<times> string) option) \<Rightarrow> nat \<Rightarrow> string \<Rightarrow> ('a list \<times> string) option" where
  "dec_items dec 0 s = Some ([], s)"
| "dec_items dec (Suc n) s =
     (case dec s of
        None \<Rightarrow> None
      | Some (x, r) \<Rightarrow> map_option (\<lambda>(xs, r'). (x # xs, r')) (dec_items dec n r))"

definition enc_list :: "('a \<Rightarrow> string) \<Rightarrow> 'a list \<Rightarrow> string" where
  "enc_list enc xs = enc_nat (length xs) @ concat (map enc xs)"

definition dec_list ::
  "(string \<Rightarrow> ('a \<times> string) option) \<Rightarrow> string \<Rightarrow> ('a list \<times> string) option" where
  "dec_list dec s =
     (case dec_nat s of None \<Rightarrow> None | Some (n, r) \<Rightarrow> dec_items dec n r)"

lemma dec_enc_nat: "dec_nat (enc_nat n @ r) = Some (n, r)"
  by (induction n) simp_all

lemma dec_enc_int: "dec_int (enc_int i @ r) = Some (i, r)"
  by (simp add: dec_int_def enc_int_def dec_enc_nat)

lemma dec_enc_option:
  assumes "\<And>x r. dec (enc x @ r) = Some (x, r)"
  shows "dec_option dec (enc_option enc v @ r) = Some (v, r)"
  by (cases v) (simp_all add: dec_option_def enc_option_def assms)

lemma dec_enc_string: "dec_string (enc_string s @ r) = Some (s, r)"
  by (simp add: dec_string_def enc_string_def dec_enc_nat)

lemma dec_enc_items:
  assumes "\<And>x r. dec (enc x @ r) = Some (x, r)"
  shows "dec_items dec (length xs) (concat (map enc xs) @ r) = Some (xs, r)"
  by (induction xs) (simp_all add: assms)

lemma dec_enc_list:
  assumes "\<And>x r. dec (enc x @ r) = Some (x, r)"
  shows "dec_list dec (enc_list enc xs @ r) = Some (xs, r)"
  by (simp add: dec_list_def enc_list_def dec_enc_nat dec_enc_items [OF assms])

lemma dec_enc_list_end:
  assumes "\<And>x r. dec (enc x @ r) = Some (x, r)"
  shows "dec_list dec (enc_list enc xs) = Some (xs, [])"
  using dec_enc_list [OF assms, of xs "[]"] by simp

definition enc_dream :: "DreamState \<Rightarrow> string" where
  "enc_dream s =
     enc_option enc_int (lastDreamAt s) @ enc_option enc_int (lastUserActivityAt s)
       @ enc_list enc_string (pendingConsolidation s) @ enc_list enc_string (insights s)"

definition dec_dream :: "string \<Rightarrow> DreamState option" where
  "dec_dream s =
     (case dec_option dec_int s of None \<Rightarrow> None | Some (a, r1) \<Rightarrow>
     (case dec_option dec_int r1 of None \<Rightarrow> None | Some (b, r2) \<Rightarrow>
     (case dec_list dec_string r2 of None \<Rightarrow> None | Some (c, r3) \<Rightarrow>
     (case dec_list dec_string r3 of None \<Rightarrow> None | Some (d, r4) \<Rightarrow>
        if r4 = [] then
          Some \<lparr>lastDreamAt = a, lastUserActivityAt = b, pendingConsolidation = c, insights = d\<rparr>
        else None))))"

lemma dec_enc_dream: "dec_dream (enc_dream s) = Some s"
  unfolding enc_dream_def dec_dream_def
  by (simp add: dec_enc_option [of dec_int enc_int, OF dec_enc_int]
      dec_enc_list [of dec_string enc_string, OF dec_enc_string]
      dec_enc_list_end [of dec_string enc_string, OF dec_enc_string])

definition enc_topic :: "CompletedTopic \<Rightarrow> string" where
  "enc_topic t = enc_string (topic t) @ enc_int (completedAt t) @ enc_int (articlesFound t)"

definition dec_topic :: "string \<Rightarrow> (CompletedTopic \<times> string) option" where
  "dec_topic s =
     (case dec_string s of None \<Rightarrow> None | Some (a, r1) \<Rightarrow>
     (case dec_int r1 of None \<Rightarrow> None | Some (b, r2) \<Rightarrow>
     (case dec_int r2 of None \<Rightarrow> None | Some (c, r3) \<Rightarrow>
        Some (\<lparr>topic = a, completedAt = b, articlesFound = c\<rparr>, r3))))"

lemma dec_enc_topic: "dec_topic (enc_topic t @ r) = Some (t, r)"
  unfolding enc_topic_def dec_topic_def
  by (simp add: dec_enc_string dec_enc_int)

definition enc_report :: "MorningReport \<Rightarrow> string" where
  "enc_report m =
     enc_string (date m) @ enc_option enc_string (dreamSummary m)
       @ enc_option enc_string (researchSummary m)
       @ enc_list enc_string (pendingQuestions m) @ enc_list enc_string (suggestedTopics m)"

definition dec_report :: "string \<Rightarrow> (MorningReport \<times> string) option" where
  "dec_report s =
     (case dec_string s of None \<Rightarrow> None | Some (a, r1) \<Rightarrow>
     (case dec_option dec_string r1 of None \<Rightarrow> None | Some (b, r2) \<Rightarrow>
     (case dec_option dec_string r2 of None \<Rightarrow> None | Some (c, r3) \<Rightarrow>
     (case dec_list dec_string r3 of None \<Rightarrow> None | Some (d, r4) \<Rightarrow>
     (case dec_list dec_string r4 of None \<Rightarrow> None | Some (e, r5) \<Rightarrow>
        Some (\<lparr>date = a, dreamSummary = b, researchSummary = c, pendingQuestions = d,
                suggestedTopics = e\<rparr>, r5))))))"

lemma dec_enc_report: "dec_report (enc_report m @ r) = Some (m, r)"
  unfolding enc_report_def dec_report_def
  by (simp add: dec_enc_string
      dec_enc_option [of dec_string enc_string, OF dec_enc_string]
      dec_enc_list [of dec_string enc_string, OF dec_enc_string])

definition enc_research :: "ResearchState \<Rightarrow> string" where
  "enc_research s =
     enc_option enc_int (lastResearchAt s) @ enc_list enc_string (topicsQueue s)
       @ enc_list enc_topic (completedTopics s) @ enc_option enc_report (pendingReport s)"

definition dec_research :: "string \<Rightarrow> ResearchState option" where
  "dec_research s =
     (case dec_option dec_int s of None \<Rightarrow> None | Some (a, r1) \<Rightarrow>
     (case dec_list dec_string r1 of None \<Rightarrow> None | Some (b, r2) \<Rightarrow>
     (case dec_list dec_topic r2 of None \<Rightarrow> None | Some (c, r3) \<Rightarrow>
     (case dec_option dec_report r3 of None \<Rightarrow> None | Some (d, r4) \<Rightarrow>
        if r4 = [] then
          Some \<lparr>lastResearchAt = a, topicsQueue = b, completedTopics = c, pendingReport = d\<rparr>
        else None))))"

lemma dec_enc_research: "dec_research (enc_research s) = Some s"
  unfolding enc_research_def dec_research_def
  using dec_enc_option [of dec_report enc_report, OF dec_enc_report, of "pendingReport s" "[]"]
  by (simp add: dec_enc_option [of dec_int enc_int, OF dec_enc_int]
      dec_enc_list [of dec_string enc_string, OF dec_enc_string]
      dec_enc_list [of dec_topic enc_topic, OF dec_enc_topic])

definition posix_host :: host where
  "posix_host =
     \<lparr>path_join = join ''/'',
      path_dirname = (\<lambda>p. rev (tl (dropWhile (\<lambda>c. c \<noteq> CHR ''/'') (rev p)))),
      stringify_dream = enc_dream, parse_dream = dec_dream,
      stringify_research = enc_research, parse_research = dec_research,
      number_round = (\<lambda>x. x)\<rparr>"

definition json_roundtrip :: "host \<Rightarrow> bool" where
  "json_roundtrip h =
     ((\<forall>s. parse_dream h (stringify_dream h s) = Some s)
      \<and> (\<forall>s. parse_research h (stringify_research h s) = Some s))"

lemma json_roundtrip_posix_host: "json_roundtrip posix_host"
  by (simp add: json_roundtrip_def posix_host_def dec_enc_dream dec_enc_research)

text \<open>
  What the theorems about thresholds use of the rounding to binary64: it is monotone, it
  leaves a number of the host as it is, and every integer up to \<open>2^53\<close> is a number of the
  host.
\<close>

definition binary64 :: "host \<Rightarrow> bool" where
  "binary64 h =
     (mono (number_round h)
      \<and> (\<forall>x. number_round h (number_round h x) = number_round h x)
      \<and> (\<forall>n :: int. \<bar>n\<bar> \<le> 2 ^ 53 \<longrightarrow> number_round h (of_int n) = of_int n))"

lemma binary64_posix_host: "binary64 posix_host"
  by (simp add: binary64_def posix_host_def mono_def)

lemma round_int:
  assumes "binary64 h" and "\<bar>n\<bar> \<le> 2 ^ 53"
  shows "number_round h (of_int n) = of_int n"
  using assms by (simp add: binary64_def)

lemma hours_ms_int:
  assumes "binary64 h" and "\<bar>n\<bar> \<le> 2 ^ 31"
  shows "hours_ms h (of_int n) = of_int (n * 3600000)"
proof -
  have a: "\<bar>n * 60\<bar> \<le> 2 ^ 53" "\<bar>n * 60 * 60\<bar> \<le> 2 ^ 53" "\<bar>n * 60 * 60 * 1000\<bar> \<le> 2 ^ 53"
    using assms(2) by (simp_all add: abs_mult)
  have "js_times h (of_int n) 60 = of_int (n * 60)"
    using round_int [OF assms(1) a(1)] by (simp add: js_times_def)
  moreover have "js_times h (of_int (n * 60)) 60 = of_int (n * 60 * 60)"
    using round_int [OF assms(1) a(2)] by (simp add: js_times_def)
  moreover have "js_times h (of_int (n * 60 * 60)) 1000 = of_int (n * 60 * 60 * 1000)"
    using round_int [OF assms(1) a(3)] by (simp add: js_times_def)
  ultimately show ?thesis by (simp add: hours_ms_def)
qed

lemma hours_ms_half:
  assumes "binary64 h"
  shows "hours_ms h (1 / 2) = 1800000"
proof -
  have "js_times h (1 / 2) 60 = 30"
    using round_int [OF assms, of 30] by (simp add: js_times_def)
  moreover have "js_times h 30 60 = 1800"
    using round_int [OF assms, of 1800] by (simp add: js_times_def)
  moreover have "js_times h 1800 1000 = 1800000"
    using round_int [OF assms, of 1800000] by (simp add: js_times_def)
  ultimately show ?thesis by (simp add: hours_ms_def)
qed

lemma hours_ms_positive:
  assumes "binary64 h" and "number_round h x = x" and "0 < x"
  shows "0 < hours_ms h x"
proof -
  have mono: "\<And>a b. a \<le> b \<Longrightarrow> number_round h a \<le> number_round h b"
    and idem: "\<And>a. number_round h (number_round h a) = number_round h a"
    using assms(1) by (auto simp: binary64_def mono_def)
  have grow: "a \<le> js_times h a c" if "number_round h a = a" "0 < a" "1 \<le> c" for a c
  proof -
    have "a * 1 \<le> a * c" using that(2,3) by (intro mult_left_mono) simp_all
    then have "number_round h a \<le> number_round h (a * c)" by (intro mono) simp
    with that(1) show ?thesis by (simp add: js_times_def)
  qed
  let ?a = "js_times h x 60"
  let ?b = "js_times h ?a 60"
  have a: "x \<le> ?a" by (rule grow [OF assms(2,3)]) simp
  have ra: "number_round h ?a = ?a" by (simp add: js_times_def idem)
  have b: "?a \<le> ?b" using a assms(3) by (intro grow [OF ra]) simp_all
  have rb: "number_round h ?b = ?b" by (simp add: js_times_def idem)
  have "?b \<le> js_times h ?b 1000" using a b assms(3) by (intro grow [OF rb]) simp_all
  with a b assms(3) show ?thesis by (simp add: hours_ms_def)
qed

text \<open>
  C6. Dream mode enabled, no dream recorded, \<open>dreamIdleHours\<close> one half (30 minutes), and a
  recorded last user activity at \<open>t\<close> (as the guard reads it: a non-zero timestamp).
  Then \<open>shouldDream\<close> is false 29 minutes after \<open>t\<close> and true 31 minutes after \<open>t\<close>.
  The products \<open>0.5 * 60\<close>, \<open>30 * 60\<close> and \<open>1800 * 1000\<close> are integers, which the rounding
  of the host leaves as they are.
\<close>

theorem shouldDream_idle_gate:
  assumes "binary64 h"
    and "Option.bind config dreamModeEnabled \<noteq> Some False"
    and "Option.bind config dreamIdleHours = Some (1 / 2)"
    and "lastDreamAt (loadDreamState h fs workspaceDir) = None"
    and "lastUserActivityAt (loadDreamState h fs workspaceDir) = Some t"
    and "t \<noteq> 0"
  shows "\<not> shouldDream h fs (t + 29 * 60 * 1000) workspaceDir config
    \<and> shouldDream h fs (t + 31 * 60 * 1000) workspaceDir config"
  using assms(2-) by (simp add: shouldDream_def recent_def Let_def hours_ms_half [OF assms(1)])

definition empty_fs :: filesystem where
  "empty_fs = \<lparr>files = Map.empty, faulty = (\<lambda>p. False)\<rparr>"

definition sample_config :: AutonomousConfigSimple where
  "sample_config =
     \<lparr>dreamModeEnabled = Some True, researchModeEnabled = Some True,
      morningReportEnabled = Some True, dreamIdleHours = Some (1 / 2),
      researchIdleHours = Some 6, morningReportHour = Some 8\<rparr>"

lemma recordActivity_ok:
  assumes "json_roundtrip h" and "recordActivity h fs t workspaceDir = Inr fs'"
  shows "loadDreamState h fs' workspaceDir
    = (loadDreamState h fs workspaceDir)\<lparr>lastUserActivityAt := Some t\<rparr>"
  using assms
  by (auto simp: recordActivity_def saveDreamState_def writeFile_def json_roundtrip_def Let_def
      loadDreamState_def [of h fs'] readFile_def split: if_splits)

definition sample_dream_fs :: filesystem where
  "sample_dream_fs =
     \<lparr>files = [''/ws/.dream-state.json'' \<mapsto>
        enc_dream \<lparr>lastDreamAt = None, lastUserActivityAt = Some 1000,
          pendingConsolidation = [], insights = [''tidy the notes'']\<rparr>],
      faulty = (\<lambda>p. False)\<rparr>"

lemma load_sample_dream_fs:
  "loadDreamState posix_host sample_dream_fs ''/ws''
     = \<lparr>lastDreamAt = None, lastUserActivityAt = Some 1000,
          pendingConsolidation = [], insights = [''tidy the notes'']\<rparr>"
  by (simp add: loadDreamState_def readFile_def sample_dream_fs_def posix_host_def
      DREAM_STATE_FILE_def dec_enc_dream)

theorem shouldDream_idle_gate_witness:
  "binary64 posix_host
   \<and> lastDreamAt (loadDreamState posix_host sample_dream_fs ''/ws'') = None
   \<and> lastUserActivityAt (loadDreamState posix_host sample_dream_fs ''/ws'') = Some 1000
   \<and> \<not> shouldDream posix_host sample_dream_fs (1000 + 29 * 60 * 1000) ''/ws'' (Some sample_config)
   \<and> shouldDream posix_host sample_dream_fs (1000 + 31 * 60 * 1000) ''/ws'' (Some sample_config)"
  using shouldDream_idle_gate [OF binary64_posix_host,
      of "Some sample_config" sample_dream_fs "''/ws''" 1000]
  by (simp add: load_sample_dream_fs sample_config_def binary64_posix_host)

text \<open>
  C9. \<open>recordActivity\<close> stores the current time \<open>t\<close> in \<open>lastUserActivityAt\<close> of the dream
  state, and that one field is the idle signal of both triggers. The thresholds are the
  products \<open>hours * 60 * 60 * 1000\<close> as the host computes them, for the configured hours (or
  the defaults 3 and 6), which are positive numbers of the host. Right after
  \<open>recordActivity\<close> both \<open>shouldDream\<close> and \<open>shouldResearch\<close> are false, and each stays false
  for as long as less than its threshold has elapsed since \<open>t\<close>. Once the threshold has
  elapsed the idle gate is open: the trigger is true unless it is disabled or its own last
  run is too recent. So both triggers turn on the time recorded by \<open>recordActivity\<close>, and
  on no other activity signal. The time recorded is a non-zero timestamp, and \<open>JSON.parse\<close>
  reads back what \<open>JSON.stringify\<close> wrote.
\<close>

theorem recordActivity_resets_idle_clock:
  assumes "json_roundtrip h" and "binary64 h"
    and "recordActivity h fs t workspaceDir = Inr fs'"
    and "t \<noteq> 0"
    and "dreamHours = (case Option.bind config dreamIdleHours of None \<Rightarrow> 3 | Some x \<Rightarrow> x)"
    and "researchHours = (case Option.bind config researchIdleHours of None \<Rightarrow> 6 | Some x \<Rightarrow> x)"
    and "0 < dreamHours" and "number_round h dreamHours = dreamHours"
    and "0 < researchHours" and "number_round h researchHours = researchHours"
  shows "lastUserActivityAt (loadDreamState h fs' workspaceDir) = Some t
    \<and> \<not> shouldDream h fs' t workspaceDir config
    \<and> \<not> shouldResearch h fs' t workspaceDir config
    \<and> (\<forall>now. real_of_int (now - t) < hours_ms h dreamHours
          \<longrightarrow> \<not> shouldDream h fs' now workspaceDir config)
    \<and> (\<forall>now. real_of_int (now - t) < hours_ms h researchHours
          \<longrightarrow> \<not> shouldResearch h fs' now workspaceDir config)
    \<and> (\<forall>now. hours_ms h dreamHours \<le> real_of_int (now - t)
          \<longrightarrow> shouldDream h fs' now workspaceDir config
              = (Option.bind config dreamModeEnabled \<noteq> Some False
                 \<and> \<not> recent (lastDreamAt (loadDreamState h fs' workspaceDir)) now
                       (hours_ms h 6)))
    \<and> (\<forall>now. hours_ms h researchHours \<le> real_of_int (now - t)
          \<longrightarrow> shouldResearch h fs' now workspaceDir config
              = (Option.bind config researchModeEnabled \<noteq> Some False
                 \<and> \<not> recent (lastResearchAt (loadResearchState h fs' workspaceDir)) now
                       (hours_ms h 12)))"
proof -
  have st: "lastUserActivityAt (loadDreamState h fs' workspaceDir) = Some t"
    using recordActivity_ok [OF assms(1,3)] by simp
  have d: "0 < hours_ms h dreamHours" by (rule hours_ms_positive [OF assms(2,8,7)])
  have r: "0 < hours_ms h researchHours" by (rule hours_ms_positive [OF assms(2,10,9)])
  have dream: "shouldDream h fs' now workspaceDir config
      = (Option.bind config dreamModeEnabled \<noteq> Some False
         \<and> \<not> real_of_int (now - t) < hours_ms h dreamHours
         \<and> \<not> recent (lastDreamAt (loadDreamState h fs' workspaceDir)) now (hours_ms h 6))" for now
    using st assms(4,5) by (simp add: shouldDream_def recent_def Let_def)
  have research: "shouldResearch h fs' now workspaceDir config
      = (Option.bind config researchModeEnabled \<noteq> Some False
         \<and> \<not> real_of_int (now - t) < hours_ms h researchHours
         \<and> \<not> recent (lastResearchAt (loadResearchState h fs' workspaceDir)) now
               (hours_ms h 12))" for now
    using st assms(4,6) by (simp add: shouldResearch_def recent_def Let_def)
  show ?thesis
    using st d r by (simp add: dream research not_less)
qed

theorem recordActivity_resets_idle_clock_witness:
  "\<exists>fs'. recordActivity posix_host sample_dream_fs 5000 ''/ws'' = Inr fs'
     \<and> lastUserActivityAt (loadDreamState posix_host fs' ''/ws'') = Some 5000
     \<and> \<not> shouldDream posix_host fs' 5000 ''/ws'' (Some sample_config)
     \<and> \<not> shouldResearch posix_host fs' 5000 ''/ws'' (Some sample_config)
     \<and> \<not> shouldDream posix_host fs' (5000 + 29 * 60 * 1000) ''/ws'' (Some sample_config)
     \<and> shouldDream posix_host fs' (5000 + 30 * 60 * 1000) ''/ws'' (Some sample_config)
     \<and> \<not> shouldResearch posix_host fs' (5000 + 359 * 60 * 1000) ''/ws'' (Some sample_config)
     \<and> shouldResearch posix_host fs' (5000 + 360 * 60 * 1000) ''/ws'' (Some sample_config)"
proof -
  obtain fs' where fs': "recordActivity posix_host sample_dream_fs 5000 ''/ws'' = Inr fs'"
    by (simp add: recordActivity_def saveDreamState_def writeFile_def sample_dream_fs_def)
  have hours: "(1 / 2 :: real) = (case Option.bind (Some sample_config) dreamIdleHours of
      None \<Rightarrow> 3 | Some x \<Rightarrow> x)"
    "(6 :: real) = (case Option.bind (Some sample_config) researchIdleHours of
      None \<Rightarrow> 6 | Some x \<Rightarrow> x)"
    by (simp_all add: sample_config_def)
  have rounded: "number_round posix_host (1 / 2) = 1 / 2" "number_round posix_host 6 = 6"
    by (simp_all add: posix_host_def)
  have ms: "hours_ms posix_host (1 / 2) = 1800000" "hours_ms posix_host 6 = 21600000"
    "hours_ms posix_host 12 = 43200000"
    by (simp_all add: hours_ms_def js_times_def posix_host_def)
  have dream: "lastDreamAt (loadDreamState posix_host fs' ''/ws'') = None"
    using recordActivity_ok [OF json_roundtrip_posix_host fs']
    by (simp add: load_sample_dream_fs)
  have research: "lastResearchAt (loadResearchState posix_host fs' ''/ws'') = None"
    using fs'
    by (auto simp: recordActivity_def saveDreamState_def writeFile_def sample_dream_fs_def
        loadResearchState_def readFile_def posix_host_def DREAM_STATE_FILE_def
        RESEARCH_STATE_FILE_def defaultResearchState_def Let_def)
  have on: "Option.bind (Some sample_config) dreamModeEnabled \<noteq> Some False"
    "Option.bind (Some sample_config) researchModeEnabled \<noteq> Some False"
    by (simp_all add: sample_config_def)
  from recordActivity_resets_idle_clock [OF json_roundtrip_posix_host binary64_posix_host fs' _
      hours _ rounded(1) _ rounded(2)]
  show ?thesis using fs' on by (simp add: ms dream research recent_def)
qed

lemma writeFile_Inr:
  "writeFile fs p c = Inr fs' \<Longrightarrow>
   \<not> faulty fs p \<and> files fs' p = Some c \<and> faulty fs' = faulty fs"
  by (auto simp: writeFile_def split: if_splits)

lemma recordMorningReport_steps:
  assumes "recordMorningReport h fs now workspaceDir = Inr fs'"
  shows "\<exists>fs2 fs3.
      files fs2 (reportPathFor h workspaceDir now) \<noteq> None
      \<and> \<not> faulty fs2 (reportPathFor h workspaceDir now)
      \<and> saveResearchState h fs2 workspaceDir
           ((loadResearchState h fs2 workspaceDir)\<lparr>completedTopics := []\<rparr>) = Inr fs3
      \<and> saveDreamState h fs3 workspaceDir
           ((loadDreamState h fs3 workspaceDir)\<lparr>insights := []\<rparr>) = Inr fs'"
proof -
  let ?p = "reportPathFor h workspaceDir now"
  obtain fs1 where m: "mkdir fs (path_dirname h ?p) = Inr fs1"
    using assms by (cases "mkdir fs (path_dirname h ?p)") (simp_all add: recordMorningReport_def)
  have fs1: "fs1 = fs" using m by (simp add: mkdir_def split: if_splits)
  let ?c = "''# Morning Report - '' @ formatDate now @ [CHR 0x0A, CHR 0x0A]
                 @ ''Sent at '' @ toISOString now @ [CHR 0x0A]"
  obtain fs2 where w: "writeFile fs1 ?p ?c = Inr fs2"
    using assms m by (cases "writeFile fs1 ?p ?c") (simp_all add: recordMorningReport_def)
  let ?r = "(loadResearchState h fs2 workspaceDir)\<lparr>completedTopics := []\<rparr>"
  obtain fs3 where r: "saveResearchState h fs2 workspaceDir ?r = Inr fs3"
    using assms m w
    by (cases "saveResearchState h fs2 workspaceDir ?r")
      (simp_all add: recordMorningReport_def Let_def)
  have d: "saveDreamState h fs3 workspaceDir
      ((loadDreamState h fs3 workspaceDir)\<lparr>insights := []\<rparr>) = Inr fs'"
    using assms m w r by (simp add: recordMorningReport_def Let_def)
  from writeFile_Inr [OF w] r d show ?thesis by auto
qed

lemma recordMorningReport_other:
  assumes "recordMorningReport h fs now workspaceDir = Inr fs'"
    and "p \<noteq> reportPathFor h workspaceDir now"
    and "p \<noteq> path_join h [workspaceDir, RESEARCH_STATE_FILE]"
    and "p \<noteq> path_join h [workspaceDir, DREAM_STATE_FILE]"
  shows "files fs' p = files fs p \<and> faulty fs' p = faulty fs p"
proof -
  let ?p = "reportPathFor h workspaceDir now"
  obtain fs1 where m: "mkdir fs (path_dirname h ?p) = Inr fs1"
    using assms(1)
    by (cases "mkdir fs (path_dirname h ?p)") (simp_all add: recordMorningReport_def)
  have fs1: "fs1 = fs" using m by (simp add: mkdir_def split: if_splits)
  let ?c = "''# Morning Report - '' @ formatDate now @ [CHR 0x0A, CHR 0x0A]
                 @ ''Sent at '' @ toISOString now @ [CHR 0x0A]"
  obtain fs2 where w: "writeFile fs1 ?p ?c = Inr fs2"
    using assms(1) m by (cases "writeFile fs1 ?p ?c") (simp_all add: recordMorningReport_def)
  let ?r = "(loadResearchState h fs2 workspaceDir)\<lparr>completedTopics := []\<rparr>"
  obtain fs3 where r: "saveResearchState h fs2 workspaceDir ?r = Inr fs3"
    using assms(1) m w
    by (cases "saveResearchState h fs2 workspaceDir ?r")
      (simp_all add: recordMorningReport_def Let_def)
  have d: "saveDreamState h fs3 workspaceDir
      ((loadDreamState h fs3 workspaceDir)\<lparr>insights := []\<rparr>) = Inr fs'"
    using assms(1) m w r by (simp add: recordMorningReport_def Let_def)
  have 2: "files fs2 p = files fs p \<and> faulty fs2 p = faulty fs p"
    using w fs1 assms(2) by (auto simp: writeFile_def split: if_splits)
  have 3: "files fs3 p = files fs2 p \<and> faulty fs3 p = faulty fs2 p"
    using r assms(3) by (auto simp: saveResearchState_def writeFile_def split: if_splits)
  have 4: "files fs' p = files fs3 p \<and> faulty fs' p = faulty fs3 p"
    using d assms(4) by (auto simp: saveDreamState_def writeFile_def split: if_splits)
  from 2 3 4 show ?thesis by simp
qed

text \<open>
  What \<open>recordMorningReport\<close> leaves behind: the report file named by the UTC date of the
  call, which makes \<open>shouldSendMorningReport\<close> false at every later call whose UTC date is
  the same, and the two state files with the lists cleared.
\<close>

lemma recordMorningReport_leaves:
  assumes "json_roundtrip h"
    and "path_join h [workspaceDir, DREAM_STATE_FILE]
           \<noteq> path_join h [workspaceDir, RESEARCH_STATE_FILE]"
    and "recordMorningReport h fs now workspaceDir = Inr fs'"
  shows "access fs' (reportPathFor h workspaceDir now) = Inr ()
    \<and> (formatDate later = formatDate now
         \<longrightarrow> \<not> shouldSendMorningReport h fs' later workspaceDir config)
    \<and> insights (loadDreamState h fs' workspaceDir) = []
    \<and> completedTopics (loadResearchState h fs' workspaceDir) = []"
proof -
  from recordMorningReport_steps [OF assms(3)] obtain fs2 fs3 where
    rep: "files fs2 (reportPathFor h workspaceDir now) \<noteq> None"
      "\<not> faulty fs2 (reportPathFor h workspaceDir now)"
    and r: "saveResearchState h fs2 workspaceDir
           ((loadResearchState h fs2 workspaceDir)\<lparr>completedTopics := []\<rparr>) = Inr fs3"
    and d: "saveDreamState h fs3 workspaceDir
           ((loadDreamState h fs3 workspaceDir)\<lparr>insights := []\<rparr>) = Inr fs'"
    by blast
  have same: "reportPathFor h workspaceDir later = reportPathFor h workspaceDir now"
    if "formatDate later = formatDate now"
    by (simp add: reportPathFor_def that)
  have acc: "access fs' (reportPathFor h workspaceDir now) = Inr ()"
    using rep r d
    by (auto simp: access_def saveResearchState_def saveDreamState_def writeFile_def
        split: if_splits)
  have ins: "insights (loadDreamState h fs' workspaceDir) = []"
    using d assms(1)
    by (auto simp: saveDreamState_def writeFile_def json_roundtrip_def
        loadDreamState_def [of h fs'] readFile_def split: if_splits)
  have res: "completedTopics (loadResearchState h fs' workspaceDir) = []"
    using r d assms(1,2)
    by (auto simp: saveDreamState_def saveResearchState_def writeFile_def json_roundtrip_def
        loadResearchState_def [of h fs'] readFile_def split: if_splits)
  show ?thesis
    using same by (simp add: shouldSendMorningReport_def acc ins res Let_def)
qed

definition sample_morning :: js_date where
  "sample_morning =
     \<lparr>getTime = 1767254700000, toISOString = ''2026-01-01T08:05:00.000Z'', getHours = 8,
      getDate = 1\<rparr>"

text \<open>
  Two moments of one morning in the time zone Asia/Kolkata (UTC+5:30), Friday 2 January
  2026 at 05:10 and at 05:50 local time: the first is 23:40 of 1 January in UTC, the second
  00:20 of 2 January.
\<close>

definition kolkata_sent :: js_date where
  "kolkata_sent =
     \<lparr>getTime = 1767310800000, toISOString = ''2026-01-01T23:40:00.000Z'', getHours = 5,
      getDate = 2\<rparr>"

definition kolkata_again :: js_date where
  "kolkata_again =
     \<lparr>getTime = 1767313200000, toISOString = ''2026-01-02T00:20:00.000Z'', getHours = 5,
      getDate = 2\<rparr>"

definition early_config :: AutonomousConfigSimple where
  "early_config =
     \<lparr>dreamModeEnabled = None, researchModeEnabled = None, morningReportEnabled = Some True,
      dreamIdleHours = None, researchIdleHours = None, morningReportHour = Some 5\<rparr>"

text \<open>
  C5, at a report hour of 5 in Asia/Kolkata. \<open>recordMorningReport\<close> runs at 05:10 and
  \<open>shouldSendMorningReport\<close> is asked again at 05:50 of the same day, in the same report
  hour. The report was filed under the UTC date 2026-01-01, the second call looks for
  2026-01-02, finds nothing and returns true. The insights and the completed topics are
  empty, as the claim says.
\<close>

theorem recordMorningReport_second_report:
  "getDate kolkata_again = getDate kolkata_sent
   \<and> getHours kolkata_sent = 5 \<and> getHours kolkata_again = 5
   \<and> getTime kolkata_again - getTime kolkata_sent = 40 * 60 * 1000
   \<and> formatDate kolkata_sent = ''2026-01-01'' \<and> formatDate kolkata_again = ''2026-01-02''
   \<and> (\<exists>fs'. recordMorningReport posix_host sample_dream_fs kolkata_sent ''/ws'' = Inr fs'
        \<and> files fs' ''/ws/memory/reports/2026-01-01.md'' \<noteq> None
        \<and> files fs' ''/ws/memory/reports/2026-01-02.md'' = None
        \<and> shouldSendMorningReport posix_host fs' kolkata_again ''/ws'' (Some early_config)
        \<and> insights (loadDreamState posix_host fs' ''/ws'') = []
        \<and> completedTopics (loadResearchState posix_host fs' ''/ws'') = [])"
proof -
  have dates: "formatDate kolkata_sent = ''2026-01-01''" "formatDate kolkata_again = ''2026-01-02''"
    by (simp_all add: formatDate_def kolkata_sent_def kolkata_again_def)
  obtain fs' where
    fs': "recordMorningReport posix_host sample_dream_fs kolkata_sent ''/ws'' = Inr fs'"
    by (simp add: recordMorningReport_def mkdir_def writeFile_def saveResearchState_def
        saveDreamState_def sample_dream_fs_def Let_def)
  have paths: "path_join posix_host [''/ws'', DREAM_STATE_FILE]
      \<noteq> path_join posix_host [''/ws'', RESEARCH_STATE_FILE]"
    by (simp add: posix_host_def DREAM_STATE_FILE_def RESEARCH_STATE_FILE_def)
  have sent: "reportPathFor posix_host ''/ws'' kolkata_sent = ''/ws/memory/reports/2026-01-01.md''"
    and again: "reportPathFor posix_host ''/ws'' kolkata_again = ''/ws/memory/reports/2026-01-02.md''"
    by (simp_all add: reportPathFor_def dates posix_host_def MORNING_REPORT_DIR_def)
  have left: "access fs' ''/ws/memory/reports/2026-01-01.md'' = Inr ()"
    "insights (loadDreamState posix_host fs' ''/ws'') = []"
    "completedTopics (loadResearchState posix_host fs' ''/ws'') = []"
    using recordMorningReport_leaves [OF json_roundtrip_posix_host paths fs'] sent by simp_all
  have there: "files fs' ''/ws/memory/reports/2026-01-01.md'' \<noteq> None"
    using left(1) by (auto simp: access_def split: if_splits option.splits)
  have "files fs' ''/ws/memory/reports/2026-01-02.md''
        = files sample_dream_fs ''/ws/memory/reports/2026-01-02.md''
      \<and> faulty fs' ''/ws/memory/reports/2026-01-02.md''
        = faulty sample_dream_fs ''/ws/memory/reports/2026-01-02.md''"
    by (rule recordMorningReport_other [OF fs'])
      (simp add: sent, simp_all add: posix_host_def DREAM_STATE_FILE_def RESEARCH_STATE_FILE_def)
  then have files: "files fs' ''/ws/memory/reports/2026-01-02.md'' = None"
    and sound: "\<not> faulty fs' ''/ws/memory/reports/2026-01-02.md''"
    by (simp_all add: sample_dream_fs_def)
  have "shouldSendMorningReport posix_host fs' kolkata_again ''/ws'' (Some early_config)"
    using files sound
    by (simp add: shouldSendMorningReport_def again access_def early_config_def Let_def)
      (simp add: kolkata_again_def)
  with fs' dates left there files show ?thesis
    by (simp add: kolkata_sent_def kolkata_again_def)
qed

section \<open>A workspace without state\<close>

lemma loadDreamState_absent:
  "files fs (path_join h [workspaceDir, DREAM_STATE_FILE]) = None \<Longrightarrow>
   loadDreamState h fs workspaceDir = defaultDreamState"
  by (simp add: loadDreamState_def readFile_def Let_def)

text \<open>
  C10. In a workspace with no dream state file \<open>loadDreamState\<close> returns the default state,
  whose two timestamps are null, and with a configuration that does not set
  \<open>dreamModeEnabled\<close> to false \<open>shouldDream\<close> returns true: the missing activity signal
  passes the idle gate and a missing flag counts as enabled.
\<close>

theorem shouldDream_fresh_workspace:
  assumes "files fs (path_join h [workspaceDir, DREAM_STATE_FILE]) = None"
    and "Option.bind config dreamModeEnabled \<noteq> Some False"
  shows "loadDreamState h fs workspaceDir = defaultDreamState
    \<and> lastDreamAt (loadDreamState h fs workspaceDir) = None
    \<and> lastUserActivityAt (loadDreamState h fs workspaceDir) = None
    \<and> shouldDream h fs now workspaceDir config"
  using assms
  by (simp add: loadDreamState_absent shouldDream_def defaultDreamState_def recent_def Let_def)

theorem shouldDream_fresh_workspace_witness:
  "files empty_fs (path_join posix_host [''/ws'', DREAM_STATE_FILE]) = None
   \<and> Option.bind (None :: AutonomousConfigSimple option) dreamModeEnabled \<noteq> Some False
   \<and> loadDreamState posix_host empty_fs ''/ws'' = defaultDreamState
   \<and> shouldDream posix_host empty_fs 1767254700000 ''/ws'' None"
  using shouldDream_fresh_workspace [of empty_fs posix_host "''/ws''" None 1767254700000]
  by (simp add: empty_fs_def)

section \<open>The injection budget\<close>

text \<open>
  What the loop of \<open>injectMemories\<close> computes, said without the loop: \<open>loadable\<close> are the
  nodes that could be read, in the order of the entries; \<open>accept\<close> keeps the first of them
  and then every next one while the running total stays within the budget, and stops at
  the first that does not fit.
\<close>

definition loadable ::
  "host \<Rightarrow> filesystem \<Rightarrow> int \<Rightarrow> string \<Rightarrow> MemoryIndexEntry list \<Rightarrow> MemoryNode list" where
  "loadable h fs now workspaceDir es =
     List.map_filter
       (\<lambda>e. case loadMemoryNode h fs now workspaceDir e of Inr (Some n) \<Rightarrow> Some n | _ \<Rightarrow> None) es"

definition chars :: "MemoryNode list \<Rightarrow> nat" where
  "chars ns = sum_list (map (\<lambda>n. length (content n)) ns)"

fun accept_more :: "int \<Rightarrow> nat \<Rightarrow> MemoryNode list \<Rightarrow> MemoryNode list" where
  "accept_more maxChars tot [] = []"
| "accept_more maxChars tot (n # ns) =
     (if int (tot + length (content n)) > maxChars then []
      else n # accept_more maxChars (tot + length (content n)) ns)"

definition accept :: "int \<Rightarrow> MemoryNode list \<Rightarrow> MemoryNode list" where
  "accept maxChars ns =
     (case ns of [] \<Rightarrow> [] | n # rest \<Rightarrow> n # accept_more maxChars (length (content n)) rest)"

lemma loadable_Nil: "loadable h fs now w [] = []"
  by (simp add: loadable_def List.map_filter_simps)

lemma loadable_Cons:
  "loadable h fs now w (e # es) =
     (case loadMemoryNode h fs now w e of Inr (Some n) \<Rightarrow> n # loadable h fs now w es
      | _ \<Rightarrow> loadable h fs now w es)"
  by (simp add: loadable_def List.map_filter_simps split: sum.splits option.splits)

lemma load_loop_more:
  assumes "\<forall>k<length es. (\<exists>err. loadMemoryNode h fs now w (es ! k) = Inl err)
      \<longrightarrow> accept_more m tot (loadable h fs now w (take k es)) \<noteq> loadable h fs now w (take k es)"
    and "ns \<noteq> []"
  shows "load_loop h fs now w m es (ns, tot)
    = Inr (ns @ accept_more m tot (loadable h fs now w es),
           tot + chars (accept_more m tot (loadable h fs now w es)))"
  using assms
proof (induction es arbitrary: ns tot)
  case Nil
  then show ?case by (simp add: loadable_def List.map_filter_simps chars_def)
next
  case (Cons e es)
  show ?case
  proof (cases "loadMemoryNode h fs now w e")
    case (Inl err)
    with Cons.prems(1) [rule_format, of 0] show ?thesis by (simp add: loadable_Nil)
  next
    case (Inr r)
    show ?thesis
    proof (cases r)
      case None
      have "\<forall>k<length es. (\<exists>err. loadMemoryNode h fs now w (es ! k) = Inl err)
          \<longrightarrow> accept_more m tot (loadable h fs now w (take k es))
              \<noteq> loadable h fs now w (take k es)"
      proof (intro allI impI)
        fix k
        assume "k < length es" "\<exists>err. loadMemoryNode h fs now w (es ! k) = Inl err"
        with Cons.prems(1) [rule_format, of "Suc k"] Inr None
        show "accept_more m tot (loadable h fs now w (take k es))
              \<noteq> loadable h fs now w (take k es)"
          by (simp add: loadable_Cons)
      qed
      from Cons.IH [OF this Cons.prems(2)] Inr None show ?thesis by (simp add: loadable_Cons)
    next
      case (Some n)
      show ?thesis
      proof (cases "int (tot + length (content n)) > m")
        case True
        with Inr Some Cons.prems(2) show ?thesis by (simp add: loadable_Cons chars_def)
      next
        case False
        have "\<forall>k<length es. (\<exists>err. loadMemoryNode h fs now w (es ! k) = Inl err)
            \<longrightarrow> accept_more m (tot + length (content n)) (loadable h fs now w (take k es))
                \<noteq> loadable h fs now w (take k es)"
        proof (intro allI impI)
          fix k
          assume "k < length es" "\<exists>err. loadMemoryNode h fs now w (es ! k) = Inl err"
          with Cons.prems(1) [rule_format, of "Suc k"] Inr Some False
          show "accept_more m (tot + length (content n)) (loadable h fs now w (take k es))
                \<noteq> loadable h fs now w (take k es)"
            by (simp add: loadable_Cons)
        qed
        then have "load_loop h fs now w m es (ns @ [n], tot + length (content n))
          = Inr ((ns @ [n]) @ accept_more m (tot + length (content n)) (loadable h fs now w es),
             (tot + length (content n))
               + chars (accept_more m (tot + length (content n)) (loadable h fs now w es)))"
          by (intro Cons.IH) simp_all
        with Inr Some False show ?thesis by (simp add: loadable_Cons chars_def Let_def)
      qed
    qed
  qed
qed

lemma load_loop_accept:
  assumes "\<forall>k<length es. (\<exists>err. loadMemoryNode h fs now w (es ! k) = Inl err)
      \<longrightarrow> accept m (loadable h fs now w (take k es)) \<noteq> loadable h fs now w (take k es)"
  shows "load_loop h fs now w m es ([], 0)
    = Inr (accept m (loadable h fs now w es), chars (accept m (loadable h fs now w es)))"
  using assms
proof (induction es)
  case Nil
  then show ?case by (simp add: loadable_def List.map_filter_simps chars_def accept_def)
next
  case (Cons e es)
  show ?case
  proof (cases "loadMemoryNode h fs now w e")
    case (Inl err)
    with Cons.prems [rule_format, of 0] show ?thesis by (simp add: loadable_Nil accept_def)
  next
    case (Inr r)
    show ?thesis
    proof (cases r)
      case None
      have "\<forall>k<length es. (\<exists>err. loadMemoryNode h fs now w (es ! k) = Inl err)
          \<longrightarrow> accept m (loadable h fs now w (take k es)) \<noteq> loadable h fs now w (take k es)"
      proof (intro allI impI)
        fix k
        assume "k < length es" "\<exists>err. loadMemoryNode h fs now w (es ! k) = Inl err"
        with Cons.prems [rule_format, of "Suc k"] Inr None
        show "accept m (loadable h fs now w (take k es)) \<noteq> loadable h fs now w (take k es)"
          by (simp add: loadable_Cons)
      qed
      from Cons.IH [OF this] Inr None show ?thesis by (simp add: loadable_Cons)
    next
      case (Some n)
      have "\<forall>k<length es. (\<exists>err. loadMemoryNode h fs now w (es ! k) = Inl err)
          \<longrightarrow> accept_more m (length (content n)) (loadable h fs now w (take k es))
              \<noteq> loadable h fs now w (take k es)"
      proof (intro allI impI)
        fix k
        assume "k < length es" "\<exists>err. loadMemoryNode h fs now w (es ! k) = Inl err"
        with Cons.prems [rule_format, of "Suc k"] Inr Some
        show "accept_more m (length (content n)) (loadable h fs now w (take k es))
              \<noteq> loadable h fs now w (take k es)"
          by (simp add: loadable_Cons accept_def)
      qed
      then have "load_loop h fs now w m es ([n], length (content n))
          = Inr ([n] @ accept_more m (length (content n)) (loadable h fs now w es),
             length (content n)
               + chars (accept_more m (length (content n)) (loadable h fs now w es)))"
        by (intro load_loop_more) simp_all
      with Inr Some show ?thesis by (simp add: loadable_Cons chars_def accept_def Let_def)
    qed
  qed
qed

lemma accept_more_prefix: "\<exists>rest. ns = accept_more m t ns @ rest"
  by (induction ns arbitrary: t) auto

lemma accept_more_within:
  "k < length (accept_more m t ns) \<Longrightarrow> int (t + chars (take (Suc k) (accept_more m t ns))) \<le> m"
proof (induction ns arbitrary: t k)
  case Nil
  then show ?case by simp
next
  case (Cons n ns)
  show ?case
  proof (cases "int (t + length (content n)) > m")
    case True
    with Cons.prems show ?thesis by simp
  next
    case False
    show ?thesis
    proof (cases k)
      case 0
      with False show ?thesis by (simp add: chars_def)
    next
      case (Suc j)
      with Cons.prems False have "j < length (accept_more m (t + length (content n)) ns)" by simp
      from Cons.IH [OF this] False Suc show ?thesis by (simp add: chars_def add.assoc)
    qed
  qed
qed

lemma accept_more_stops:
  "ns = accept_more m t ns @ x # rest \<Longrightarrow>
   int (t + chars (accept_more m t ns) + length (content x)) > m"
proof (induction ns arbitrary: t)
  case Nil
  then show ?case by simp
next
  case (Cons n ns)
  show ?case
  proof (cases "int (t + length (content n)) > m")
    case True
    with Cons.prems show ?thesis by (simp add: chars_def)
  next
    case False
    with Cons.prems have "ns = accept_more m (t + length (content n)) ns @ x # rest" by simp
    from Cons.IH [OF this] False show ?thesis by (simp add: chars_def add.assoc)
  qed
qed

lemma compareEntries_le:
  "compareEntries a b \<le> 0 \<longleftrightarrow>
     tierOrder (tier a) < tierOrder (tier b)
     \<or> (tier a = tier b \<and> updatedAt b \<le> updatedAt a)"
  by (cases "tier a"; cases "tier b") (simp_all add: compareEntries_def tierOrder_def Let_def)

lemma insert_by_mset: "mset (insert_by cmp x xs) = add_mset x (mset xs)"
  by (induction xs) simp_all

lemma array_sort_mset: "mset (array_sort cmp xs) = mset xs"
  by (induction xs) (simp_all add: array_sort_def insert_by_mset)

lemma insert_by_set: "set (insert_by cmp x xs) = insert x (set xs)"
  by (induction xs) auto

lemma array_sort_set: "set (array_sort cmp xs) = set xs"
  by (induction xs) (simp_all add: array_sort_def insert_by_set)

lemma tierOrder_eq: "tierOrder a = tierOrder b \<longleftrightarrow> a = b"
  by (cases a; cases b) (simp_all add: tierOrder_def)

lemma compareEntries_total: "compareEntries a b \<le> 0 \<or> compareEntries b a \<le> 0"
  using tierOrder_eq [of "tier a" "tier b"] by (auto simp: compareEntries_le)

lemma compareEntries_trans:
  "compareEntries a b \<le> 0 \<Longrightarrow> compareEntries b c \<le> 0 \<Longrightarrow> compareEntries a c \<le> 0"
  by (auto simp: compareEntries_le)

lemma insert_by_sorted:
  assumes "sorted_wrt (\<lambda>a b. compareEntries a b \<le> 0) xs"
  shows "sorted_wrt (\<lambda>a b. compareEntries a b \<le> 0) (insert_by compareEntries x xs)"
  using assms
proof (induction xs)
  case Nil
  then show ?case by simp
next
  case (Cons y ys)
  show ?case
  proof (cases "compareEntries x y \<le> 0")
    case True
    have "compareEntries x z \<le> 0" if "z \<in> set ys" for z
      using that Cons.prems True compareEntries_trans [of x y z] by auto
    with True Cons.prems show ?thesis by auto
  next
    case False
    then have "compareEntries y x \<le> 0" using compareEntries_total [of x y] by simp
    with False Cons show ?thesis by (auto simp: insert_by_set)
  qed
qed

lemma array_sort_sorted:
  "sorted_wrt (\<lambda>a b. compareEntries a b \<le> 0) (array_sort compareEntries xs)"
proof (induction xs)
  case Nil
  then show ?case by (simp add: array_sort_def)
next
  case (Cons x xs)
  then show ?case using insert_by_sorted [of "array_sort compareEntries xs" x]
    by (simp add: array_sort_def)
qed

definition candidates ::
  "host \<Rightarrow> filesystem \<Rightarrow> int \<Rightarrow> string \<Rightarrow> MemoryIndexEntry list \<Rightarrow> MemoryNode list" where
  "candidates h fs now workspaceDir es =
     loadable h fs now workspaceDir (array_sort compareEntries es)"

lemma assemble_accept:
  assumes "\<forall>k<length es.
      (\<exists>err. loadMemoryNode h fs now w (array_sort compareEntries es ! k) = Inl err)
      \<longrightarrow> accept (m * 4) (loadable h fs now w (take k (array_sort compareEntries es)))
          \<noteq> loadable h fs now w (take k (array_sort compareEntries es))"
  shows "assemble h fs now w m es matched =
     Inr \<lparr>injected = (accept (m * 4) (candidates h fs now w es) \<noteq> []),
          result_nodes = accept (m * 4) (candidates h fs now w es),
          totalTokens = \<lceil>real (chars (accept (m * 4) (candidates h fs now w es))) / 4\<rceil>,
          matchedKeywords = matched\<rparr>"
proof -
  have "length (array_sort compareEntries es) = length es"
    using array_sort_mset [of compareEntries es] by (metis size_mset)
  with assms have "\<forall>k<length (array_sort compareEntries es).
      (\<exists>err. loadMemoryNode h fs now w (array_sort compareEntries es ! k) = Inl err)
      \<longrightarrow> accept (m * 4) (loadable h fs now w (take k (array_sort compareEntries es)))
          \<noteq> loadable h fs now w (take k (array_sort compareEntries es))"
    by simp
  from load_loop_accept [OF this] show ?thesis
    by (simp add: assemble_def CHARS_PER_TOKEN_def candidates_def Let_def)
qed

lemma injectMemories_assemble:
  assumes "loadMemoryIndex fs clock (configuredIndexPath h w config) = Inr (Some index)"
    and "nodes index \<noteq> []"
    and "findMatchingNodes index (allKeywords ctx config) (configuredTiers config)
           = Inr (es, matched)"
    and "es \<noteq> []"
  shows "injectMemories h fs clock now w ctx config
    = assemble h fs now w (configuredMaxTokens config) es matched"
  using assms by (simp add: injectMemories_def)

text \<open>
  C3. For the entries \<open>es\<close> that \<open>findMatchingNodes\<close> returned and a positive \<open>maxTokens\<close> of
  \<open>m\<close>. The entries are read in the order \<open>array_sort compareEntries es\<close>, a permutation of
  \<open>es\<close> with core before contextual before archival and, within a tier, the later
  \<open>updatedAt\<close> first (the entries of a parsed index carry the readings of the clock at their
  lines). A read that fails, but for a missing file, is rethrown; the theorem is for the
  runs in which no such read is reached: every entry whose read would fail comes after a
  node that did not fit. Then \<open>injectMemories\<close> returns; the first node that loads is in
  the result whatever its size; every later node of the result kept the total within
  \<open>4 * m\<close> characters; the result is a prefix of the nodes that load, and the node after it,
  if there is one, would have taken the total over \<open>4 * m\<close>, and nothing after that node is
  in the result; \<open>totalTokens\<close> is the total number of characters divided by 4, rounded up.
\<close>

theorem injectMemories_budget_policy:
  assumes "loadMemoryIndex fs clock (configuredIndexPath h w config) = Inr (Some index)"
    and "nodes index \<noteq> []"
    and "findMatchingNodes index (allKeywords ctx config) (configuredTiers config)
           = Inr (es, matched)"
    and "es \<noteq> []"
    and "Option.bind config maxTokens = Some m" and "0 < m"
    and "\<forall>k<length es.
      (\<exists>err. loadMemoryNode h fs now w (array_sort compareEntries es ! k) = Inl err)
      \<longrightarrow> accept (m * 4) (loadable h fs now w (take k (array_sort compareEntries es)))
          \<noteq> loadable h fs now w (take k (array_sort compareEntries es))"
  shows "\<exists>r. injectMemories h fs clock now w ctx config = Inr r
    \<and> mset (array_sort compareEntries es) = mset es
    \<and> sorted_wrt (\<lambda>a b. tierOrder (tier a) < tierOrder (tier b)
          \<or> (tier a = tier b \<and> updatedAt b \<le> updatedAt a)) (array_sort compareEntries es)
    \<and> result_nodes r = accept (m * 4) (candidates h fs now w es)
    \<and> (candidates h fs now w es \<noteq> [] \<longrightarrow>
          result_nodes r \<noteq> [] \<and> hd (result_nodes r) = hd (candidates h fs now w es))
    \<and> (\<forall>k. 0 < k \<and> k < length (result_nodes r) \<longrightarrow>
          int (chars (take (Suc k) (result_nodes r))) \<le> m * 4)
    \<and> (\<exists>rest. candidates h fs now w es = result_nodes r @ rest
          \<and> (\<forall>x rest'. rest = x # rest' \<longrightarrow>
                int (chars (result_nodes r) + length (content x)) > m * 4))
    \<and> totalTokens r = \<lceil>real (chars (result_nodes r)) / 4\<rceil>
    \<and> injected r = (result_nodes r \<noteq> [])
    \<and> matchedKeywords r = matched"
proof -
  let ?c = "candidates h fs now w es"
  let ?r = "\<lparr>injected = (accept (m * 4) ?c \<noteq> []), result_nodes = accept (m * 4) ?c,
          totalTokens = \<lceil>real (chars (accept (m * 4) ?c)) / 4\<rceil>, matchedKeywords = matched\<rparr>"
  have mt: "configuredMaxTokens config = m"
    using assms(5,6) by (simp add: configuredMaxTokens_def)
  have ret: "injectMemories h fs clock now w ctx config = Inr ?r"
    using injectMemories_assemble [OF assms(1-4)] assemble_accept [OF assms(7)]
    by (simp add: mt)
  have srt: "sorted_wrt (\<lambda>a b. tierOrder (tier a) < tierOrder (tier b)
          \<or> (tier a = tier b \<and> updatedAt b \<le> updatedAt a)) (array_sort compareEntries es)"
    using array_sort_sorted [of es] by (simp add: compareEntries_le)
  have first: "?c \<noteq> [] \<longrightarrow> accept (m * 4) ?c \<noteq> [] \<and> hd (accept (m * 4) ?c) = hd ?c"
    by (cases ?c) (simp_all add: accept_def)
  have within: "int (chars (take (Suc k) (accept (m * 4) ?c))) \<le> m * 4"
    if "0 < k" "k < length (accept (m * 4) ?c)" for k
  proof (cases ?c)
    case Nil
    with that show ?thesis by (simp add: accept_def)
  next
    case (Cons n ns)
    from that obtain j where j: "k = Suc j" by (cases k) auto
    with that Cons have "j < length (accept_more (m * 4) (length (content n)) ns)"
      by (simp add: accept_def)
    from accept_more_within [OF this] j Cons show ?thesis
      by (simp add: accept_def chars_def)
  qed
  have stops: "\<exists>rest. ?c = accept (m * 4) ?c @ rest
          \<and> (\<forall>x rest'. rest = x # rest' \<longrightarrow>
                int (chars (accept (m * 4) ?c) + length (content x)) > m * 4)"
  proof (cases ?c)
    case Nil
    then show ?thesis by (simp add: accept_def)
  next
    case (Cons n ns)
    obtain rest where rest: "ns = accept_more (m * 4) (length (content n)) ns @ rest"
      using accept_more_prefix by blast
    have "int (chars (accept (m * 4) ?c) + length (content x)) > m * 4"
      if "rest = x # rest'" for x rest'
      using accept_more_stops [of ns "m * 4" "length (content n)" x rest'] rest that Cons
      by (simp add: accept_def chars_def)
    with rest Cons show ?thesis by (auto simp: accept_def)
  qed
  show ?thesis
    using ret srt first within stops by (simp add: array_sort_mset)
qed

subsection \<open>A workspace with nodes of 9000, 50 and 50 characters\<close>

definition budget_index_text :: string where
  "budget_index_text = join [CHR 0x0A]
     [''## Contextual Memories'',
      ''- [Alpha](memory/nodes/alpha.md) - keywords: dog'',
      ''- [Beta](memory/nodes/beta.md) - keywords: dog'',
      ''- [Gamma](memory/nodes/gamma.md) - keywords: dog'']"

definition alpha_text :: string where "alpha_text = replicate 9000 CHR ''a''"
definition beta_text :: string where "beta_text = replicate 50 CHR ''b''"
definition gamma_text :: string where "gamma_text = replicate 50 CHR ''c''"

definition budget_fs :: filesystem where
  "budget_fs =
     \<lparr>files =
        [''/ws/memory/index.md'' \<mapsto> budget_index_text,
         ''/ws/memory/nodes/alpha.md'' \<mapsto> alpha_text,
         ''/ws/memory/nodes/beta.md'' \<mapsto> beta_text,
         ''/ws/memory/nodes/gamma.md'' \<mapsto> gamma_text],
      faulty = (\<lambda>p. False)\<rparr>"

definition budget_config :: "int \<Rightarrow> CoreMemoryConfig" where
  "budget_config m =
     \<lparr>enabled = None, indexPath = None, nodesDir = None, maxTokens = Some m, tiers = None,
      autoCreate = None, coreKeywords = None\<rparr>"

definition budget_entry :: "string \<Rightarrow> string \<Rightarrow> MemoryIndexEntry" where
  "budget_entry i t =
     \<lparr>id' = i, title = t, keywords = [''dog''], tier = Contextual, createdAt = 0,
      updatedAt = 0, filePath = ''memory/nodes/'' @ i @ ''.md''\<rparr>"

definition budget_index :: MemoryIndex where
  "budget_index =
     \<lparr>nodes = [(''alpha'', budget_entry ''alpha'' ''Alpha''),
               (''beta'', budget_entry ''beta'' ''Beta''),
               (''gamma'', budget_entry ''gamma'' ''Gamma'')],
      keywordMap = [(''dog'', [''alpha'', ''beta'', ''gamma''])]\<rparr>"

lemma budget_parse: "parseMemoryIndexMarkdown (\<lambda>k. 0) budget_index_text = Inr budget_index"
  by code_simp

lemma budget_match:
  "findMatchingNodes budget_index (allKeywords ''my dog'' (Some (budget_config m)))
     (configuredTiers (Some (budget_config m)))
   = Inr ([budget_entry ''alpha'' ''Alpha'', budget_entry ''beta'' ''Beta'',
           budget_entry ''gamma'' ''Gamma''], [''dog''])"
  by code_simp

lemma budget_sort:
  "array_sort compareEntries [budget_entry ''alpha'' ''Alpha'', budget_entry ''beta'' ''Beta'',
           budget_entry ''gamma'' ''Gamma'']
   = [budget_entry ''alpha'' ''Alpha'', budget_entry ''beta'' ''Beta'',
           budget_entry ''gamma'' ''Gamma'']"
  by code_simp

definition budget_node :: "string \<Rightarrow> string \<Rightarrow> string \<Rightarrow> MemoryNode" where
  "budget_node i t c =
     \<lparr>id' = i, title = t, keywords = [''dog''], tier = Contextual, createdAt = 0,
      updatedAt = 0, content = c, accessCount = 0, lastAccessedAt = 0\<rparr>"

lemma budget_load_index:
  "loadMemoryIndex budget_fs (\<lambda>k. 0) (configuredIndexPath posix_host ''/ws'' (Some (budget_config m)))
     = Inr (Some budget_index)"
  by (simp add: loadMemoryIndex_def configuredIndexPath_def budget_config_def posix_host_def
      DEFAULT_INDEX_PATH_def readFile_def budget_fs_def budget_parse)

lemma budget_load_nodes:
  "loadMemoryNode posix_host budget_fs 0 ''/ws'' (budget_entry ''alpha'' ''Alpha'')
     = Inr (Some (budget_node ''alpha'' ''Alpha'' alpha_text))"
  "loadMemoryNode posix_host budget_fs 0 ''/ws'' (budget_entry ''beta'' ''Beta'')
     = Inr (Some (budget_node ''beta'' ''Beta'' beta_text))"
  "loadMemoryNode posix_host budget_fs 0 ''/ws'' (budget_entry ''gamma'' ''Gamma'')
     = Inr (Some (budget_node ''gamma'' ''Gamma'' gamma_text))"
  by (simp_all add: loadMemoryNode_def readFile_def budget_fs_def budget_entry_def
      budget_node_def posix_host_def)

lemma budget_text_lengths:
  "length alpha_text = 9000" "length beta_text = 50" "length gamma_text = 50"
  unfolding alpha_text_def beta_text_def gamma_text_def by (rule length_replicate)+

lemma budget_lengths:
  "length (content (budget_node ''alpha'' ''Alpha'' alpha_text)) = 9000"
  "length (content (budget_node ''beta'' ''Beta'' beta_text)) = 50"
  "length (content (budget_node ''gamma'' ''Gamma'' gamma_text)) = 50"
  by (simp_all add: budget_node_def budget_text_lengths)

lemma budget_nodes_nonempty: "nodes budget_index \<noteq> []"
  by (simp add: budget_index_def)

text \<open>
  Three matched candidates of 9000, 50 and 50 characters under 4000 tokens: the budget is
  16000 characters, the first node is not oversized, and all three nodes are returned, not
  one.
\<close>

theorem injection_budget_counterexample:
  "\<exists>r. injectMemories posix_host budget_fs (\<lambda>k. 0) 0 ''/ws'' ''my dog'' (Some (budget_config 4000)) = Inr r
     \<and> map (\<lambda>n. length (content n)) (result_nodes r) = [9000, 50, 50]
     \<and> length (result_nodes r) = 3"
proof -
  have "injectMemories posix_host budget_fs (\<lambda>k. 0) 0 ''/ws'' ''my dog'' (Some (budget_config 4000))
    = assemble posix_host budget_fs 0 ''/ws'' 4000
        [budget_entry ''alpha'' ''Alpha'', budget_entry ''beta'' ''Beta'',
         budget_entry ''gamma'' ''Gamma''] [''dog'']"
    using injectMemories_assemble [OF budget_load_index budget_nodes_nonempty budget_match]
    by (simp add: configuredMaxTokens_def budget_config_def)
  then show ?thesis
    by (simp add: assemble_def budget_sort budget_load_nodes budget_lengths
        CHARS_PER_TOKEN_def Let_def)
qed

text \<open>
  C2, as the code has it. Three matched candidates whose loaded contents are 9000, 50 and 50
  characters, in the order of the sort, and a positive \<open>maxTokens\<close> of \<open>m\<close>: the first node
  is always returned; the second as well when \<open>4 * m\<close> is at least 9050, the third when it is
  at least 9100. Under 4000 tokens (16000 characters) the result holds all three nodes and
  2275 tokens.
\<close>

theorem injection_budget_three_nodes:
  assumes "loadMemoryIndex fs clock (configuredIndexPath h w config) = Inr (Some index)"
    and "nodes index \<noteq> []"
    and "findMatchingNodes index (allKeywords ctx config) (configuredTiers config)
           = Inr (es, matched)"
    and "array_sort compareEntries es = [e1, e2, e3]"
    and "loadMemoryNode h fs now w e1 = Inr (Some n1)" and "length (content n1) = 9000"
    and "loadMemoryNode h fs now w e2 = Inr (Some n2)" and "length (content n2) = 50"
    and "loadMemoryNode h fs now w e3 = Inr (Some n3)" and "length (content n3) = 50"
    and "Option.bind config maxTokens = Some m" and "0 < m"
  shows "injectMemories h fs clock now w ctx config =
     Inr (if m * 4 < 9050 then
            \<lparr>injected = True, result_nodes = [n1], totalTokens = 2250,
             matchedKeywords = matched\<rparr>
          else if m * 4 < 9100 then
            \<lparr>injected = True, result_nodes = [n1, n2], totalTokens = 2263,
             matchedKeywords = matched\<rparr>
          else
            \<lparr>injected = True, result_nodes = [n1, n2, n3], totalTokens = 2275,
             matchedKeywords = matched\<rparr>)"
proof -
  have "es \<noteq> []" using assms(4) by (auto simp: array_sort_def)
  from injectMemories_assemble [OF assms(1-3) this]
  have "injectMemories h fs clock now w ctx config = assemble h fs now w m es matched"
    using assms(11,12) by (simp add: configuredMaxTokens_def)
  moreover have "load_loop h fs now w (m * 4) [e1, e2, e3] ([], 0)
      = Inr (if m * 4 < 9050 then ([n1], 9000)
             else if m * 4 < 9100 then ([n1, n2], 9050) else ([n1, n2, n3], 9100))"
    using assms(5-10) by (simp add: Let_def)
  moreover have "\<lceil>real 9000 / 4\<rceil> = (2250 :: int)" "\<lceil>real 9050 / 4\<rceil> = (2263 :: int)"
    "\<lceil>real 9100 / 4\<rceil> = (2275 :: int)"
    by (simp_all add: ceiling_eq_iff)
  ultimately show ?thesis
    using assms(4)
    by (simp add: assemble_def CHARS_PER_TOKEN_def Let_def del: of_nat_numeral)
qed

lemma budget_config_maxTokens:
  "Option.bind (Some (budget_config m)) maxTokens = Some m"
  by (simp add: budget_config_def)

theorem injection_budget_three_nodes_witness:
  "injectMemories posix_host budget_fs (\<lambda>k. 0) 0 ''/ws'' ''my dog'' (Some (budget_config 4000))
     = Inr \<lparr>injected = True,
            result_nodes = [budget_node ''alpha'' ''Alpha'' alpha_text,
              budget_node ''beta'' ''Beta'' beta_text, budget_node ''gamma'' ''Gamma'' gamma_text],
            totalTokens = 2275, matchedKeywords = [''dog'']\<rparr>
   \<and> injectMemories posix_host budget_fs (\<lambda>k. 0) 0 ''/ws'' ''my dog'' (Some (budget_config 2000))
     = Inr \<lparr>injected = True, result_nodes = [budget_node ''alpha'' ''Alpha'' alpha_text],
            totalTokens = 2250, matchedKeywords = [''dog'']\<rparr>"
proof -
  have a: "injectMemories posix_host budget_fs (\<lambda>k. 0) 0 ''/ws'' ''my dog'' (Some (budget_config 4000))
     = Inr \<lparr>injected = True,
            result_nodes = [budget_node ''alpha'' ''Alpha'' alpha_text,
              budget_node ''beta'' ''Beta'' beta_text, budget_node ''gamma'' ''Gamma'' gamma_text],
            totalTokens = 2275, matchedKeywords = [''dog'']\<rparr>"
    using injection_budget_three_nodes [OF budget_load_index [of 4000] budget_nodes_nonempty
      budget_match [of 4000] budget_sort budget_load_nodes(1) budget_lengths(1)
      budget_load_nodes(2) budget_lengths(2) budget_load_nodes(3) budget_lengths(3)
      budget_config_maxTokens [of 4000]]
    by simp
  have b: "injectMemories posix_host budget_fs (\<lambda>k. 0) 0 ''/ws'' ''my dog'' (Some (budget_config 2000))
     = Inr \<lparr>injected = True, result_nodes = [budget_node ''alpha'' ''Alpha'' alpha_text],
            totalTokens = 2250, matchedKeywords = [''dog'']\<rparr>"
    using injection_budget_three_nodes [OF budget_load_index [of 2000] budget_nodes_nonempty
      budget_match [of 2000] budget_sort budget_load_nodes(1) budget_lengths(1)
      budget_load_nodes(2) budget_lengths(2) budget_load_nodes(3) budget_lengths(3)
      budget_config_maxTokens [of 2000]]
    by simp
  from a b show ?thesis by (rule conjI)
qed

subsection \<open>A workspace with nodes in three tiers\<close>

text \<open>
  The index lists two contextual nodes, a core node and two archival nodes; the clock
  advances by one millisecond from reading to reading, so every entry has its own
  \<open>updatedAt\<close>. The files of the nodes hold 40, 50, 30 and 5 characters, and the file of
  the first archival node cannot be read (an error other than ENOENT). With 25 tokens the
  budget is 100 characters: the core node and the later contextual node are kept (80
  characters), the other contextual node does not fit, and the loop stops there: the
  archival node of 5 characters, which would fit, is not looked at, and the unreadable file
  is never read.
\<close>

definition kennel_index_text :: string where
  "kennel_index_text = join [CHR 0x0A]
     [''## Contextual Memories'',
      ''- [Walks](memory/nodes/walks.md) - keywords: dog'',
      ''- [Vet](memory/nodes/vet.md) - keywords: dog'',
      ''## Core Memories'',
      ''- [Owner](memory/nodes/owner.md) - keywords: identity'',
      ''## Archival Memories'',
      ''- [Puppy](memory/nodes/puppy.md) - keywords: dog'',
      ''- [Toy](memory/nodes/toy.md) - keywords: dog'']"

definition kennel_clock :: "nat \<Rightarrow> int" where
  "kennel_clock k = 1000 + int k"

definition walks_text :: string where "walks_text = replicate 40 CHR ''w''"
definition vet_text :: string where "vet_text = replicate 50 CHR ''v''"
definition owner_text :: string where "owner_text = replicate 30 CHR ''o''"
definition toy_text :: string where "toy_text = replicate 5 CHR ''t''"

definition kennel_fs :: filesystem where
  "kennel_fs =
     \<lparr>files =
        [''/ws/memory/index.md'' \<mapsto> kennel_index_text,
         ''/ws/memory/nodes/walks.md'' \<mapsto> walks_text,
         ''/ws/memory/nodes/vet.md'' \<mapsto> vet_text,
         ''/ws/memory/nodes/owner.md'' \<mapsto> owner_text,
         ''/ws/memory/nodes/toy.md'' \<mapsto> toy_text],
      faulty = (\<lambda>p. p = ''/ws/memory/nodes/puppy.md'')\<rparr>"

definition kennel_config :: CoreMemoryConfig where
  "kennel_config =
     \<lparr>enabled = None, indexPath = None, nodesDir = None, maxTokens = Some 25,
      tiers = Some [Core, Contextual, Archival], autoCreate = None, coreKeywords = None\<rparr>"

definition kennel_entry ::
  "string \<Rightarrow> string \<Rightarrow> string \<Rightarrow> MemoryTier \<Rightarrow> int \<Rightarrow> int \<Rightarrow> MemoryIndexEntry" where
  "kennel_entry i t kw tr c u =
     \<lparr>id' = i, title = t, keywords = [kw], tier = tr, createdAt = c, updatedAt = u,
      filePath = ''memory/nodes/'' @ i @ ''.md''\<rparr>"

definition walks :: MemoryIndexEntry where
  "walks = kennel_entry ''walks'' ''Walks'' ''dog'' Contextual 1002 1003"

definition vet :: MemoryIndexEntry where
  "vet = kennel_entry ''vet'' ''Vet'' ''dog'' Contextual 1004 1005"

definition owner :: MemoryIndexEntry where
  "owner = kennel_entry ''owner'' ''Owner'' ''identity'' Core 1008 1009"

definition puppy :: MemoryIndexEntry where
  "puppy = kennel_entry ''puppy'' ''Puppy'' ''dog'' Archival 1012 1013"

definition toy :: MemoryIndexEntry where
  "toy = kennel_entry ''toy'' ''Toy'' ''dog'' Archival 1014 1015"

definition kennel_index :: MemoryIndex where
  "kennel_index =
     \<lparr>nodes = [(''walks'', walks), (''vet'', vet), (''owner'', owner), (''puppy'', puppy),
               (''toy'', toy)],
      keywordMap = [(''dog'', [''walks'', ''vet'', ''puppy'', ''toy'']),
                    (''identity'', [''owner''])]\<rparr>"

definition kennel_node :: "MemoryIndexEntry \<Rightarrow> string \<Rightarrow> MemoryNode" where
  "kennel_node e c =
     \<lparr>id' = id' e, title = title e, keywords = keywords e, tier = tier e,
      createdAt = createdAt e, updatedAt = updatedAt e, content = c, accessCount = 0,
      lastAccessedAt = 2000\<rparr>"

lemma kennel_parse: "parseMemoryIndexMarkdown kennel_clock kennel_index_text = Inr kennel_index"
  by code_simp

lemma kennel_match:
  "findMatchingNodes kennel_index (allKeywords ''my dog'' (Some kennel_config))
     (configuredTiers (Some kennel_config))
   = Inr ([owner, walks, vet, puppy, toy], [''dog''])"
  by code_simp

lemma kennel_sort:
  "array_sort compareEntries [owner, walks, vet, puppy, toy] = [owner, vet, walks, toy, puppy]"
  by code_simp

lemma kennel_load_index:
  "loadMemoryIndex kennel_fs kennel_clock (configuredIndexPath posix_host ''/ws'' (Some kennel_config))
     = Inr (Some kennel_index)"
  by (simp add: loadMemoryIndex_def configuredIndexPath_def kennel_config_def posix_host_def
      DEFAULT_INDEX_PATH_def readFile_def kennel_fs_def kennel_parse)

lemma kennel_load_nodes:
  "loadMemoryNode posix_host kennel_fs 2000 ''/ws'' owner = Inr (Some (kennel_node owner owner_text))"
  "loadMemoryNode posix_host kennel_fs 2000 ''/ws'' vet = Inr (Some (kennel_node vet vet_text))"
  "loadMemoryNode posix_host kennel_fs 2000 ''/ws'' walks
     = Inr (Some (kennel_node walks walks_text))"
  "loadMemoryNode posix_host kennel_fs 2000 ''/ws'' toy = Inr (Some (kennel_node toy toy_text))"
  "loadMemoryNode posix_host kennel_fs 2000 ''/ws'' puppy = Inl EOTHER"
  by (simp_all add: loadMemoryNode_def readFile_def kennel_fs_def kennel_entry_def
      kennel_node_def posix_host_def owner_def vet_def walks_def puppy_def toy_def)

lemma kennel_text_lengths:
  "length owner_text = 30" "length vet_text = 50" "length walks_text = 40" "length toy_text = 5"
  unfolding owner_text_def vet_text_def walks_text_def toy_text_def by (rule length_replicate)+

lemma kennel_lengths:
  "length (content (kennel_node e owner_text)) = 30"
  "length (content (kennel_node e vet_text)) = 50"
  "length (content (kennel_node e walks_text)) = 40"
  "length (content (kennel_node e toy_text)) = 5"
  by (simp_all add: kennel_node_def kennel_text_lengths)

lemma kennel_loadable:
  "loadable posix_host kennel_fs 2000 ''/ws'' [owner, vet, walks, toy, puppy]
     = [kennel_node owner owner_text, kennel_node vet vet_text, kennel_node walks walks_text,
        kennel_node toy toy_text]"
  "loadable posix_host kennel_fs 2000 ''/ws'' [owner, vet, walks, toy]
     = [kennel_node owner owner_text, kennel_node vet vet_text, kennel_node walks walks_text,
        kennel_node toy toy_text]"
  by (simp_all add: loadable_Cons loadable_Nil kennel_load_nodes)

lemma kennel_accept:
  "accept 100
     [kennel_node owner owner_text, kennel_node vet vet_text, kennel_node walks walks_text,
      kennel_node toy toy_text]
   = [kennel_node owner owner_text, kennel_node vet vet_text]"
  by (simp add: accept_def kennel_lengths)

lemma kennel_reads:
  "\<forall>k<length [owner, walks, vet, puppy, toy].
      (\<exists>err. loadMemoryNode posix_host kennel_fs 2000 ''/ws''
                (array_sort compareEntries [owner, walks, vet, puppy, toy] ! k) = Inl err)
      \<longrightarrow> accept (25 * 4) (loadable posix_host kennel_fs 2000 ''/ws''
              (take k (array_sort compareEntries [owner, walks, vet, puppy, toy])))
          \<noteq> loadable posix_host kennel_fs 2000 ''/ws''
              (take k (array_sort compareEntries [owner, walks, vet, puppy, toy]))"
proof (intro allI impI)
  fix k
  assume k: "k < length [owner, walks, vet, puppy, toy]"
    and err: "\<exists>err. loadMemoryNode posix_host kennel_fs 2000 ''/ws''
                (array_sort compareEntries [owner, walks, vet, puppy, toy] ! k) = Inl err"
  from k have "k = 0 \<or> k = 1 \<or> k = 2 \<or> k = 3 \<or> k = 4" by auto
  with err have "k = 4" by (auto simp: kennel_sort kennel_load_nodes)
  then have "take k (array_sort compareEntries [owner, walks, vet, puppy, toy])
      = [owner, vet, walks, toy]"
    by (simp add: kennel_sort)
  then show "accept (25 * 4) (loadable posix_host kennel_fs 2000 ''/ws''
              (take k (array_sort compareEntries [owner, walks, vet, puppy, toy])))
          \<noteq> loadable posix_host kennel_fs 2000 ''/ws''
              (take k (array_sort compareEntries [owner, walks, vet, puppy, toy]))"
    by (simp add: kennel_loadable kennel_accept)
qed

theorem injectMemories_budget_policy_witness:
  "map tier [owner, walks, vet, puppy, toy]
     = [Core, Contextual, Contextual, Archival, Archival]
   \<and> map updatedAt [owner, walks, vet, puppy, toy] = [1009, 1003, 1005, 1013, 1015]
   \<and> array_sort compareEntries [owner, walks, vet, puppy, toy] = [owner, vet, walks, toy, puppy]
   \<and> loadMemoryNode posix_host kennel_fs 2000 ''/ws'' puppy = Inl EOTHER
   \<and> candidates posix_host kennel_fs 2000 ''/ws'' [owner, walks, vet, puppy, toy]
        = [kennel_node owner owner_text, kennel_node vet vet_text, kennel_node walks walks_text,
           kennel_node toy toy_text]
   \<and> map (\<lambda>n. length (content n))
        (candidates posix_host kennel_fs 2000 ''/ws'' [owner, walks, vet, puppy, toy])
        = [30, 50, 40, 5]
   \<and> (\<exists>r. injectMemories posix_host kennel_fs kennel_clock 2000 ''/ws'' ''my dog''
            (Some kennel_config) = Inr r
        \<and> result_nodes r = [kennel_node owner owner_text, kennel_node vet vet_text]
        \<and> totalTokens r = 20)"
proof -
  have c: "candidates posix_host kennel_fs 2000 ''/ws'' [owner, walks, vet, puppy, toy]
        = [kennel_node owner owner_text, kennel_node vet vet_text, kennel_node walks walks_text,
           kennel_node toy toy_text]"
    by (simp add: candidates_def kennel_sort kennel_loadable)
  have ix: "nodes kennel_index \<noteq> []" by (simp add: kennel_index_def)
  have ne: "[owner, walks, vet, puppy, toy] \<noteq> []" by simp
  have mt: "Option.bind (Some kennel_config) maxTokens = Some 25"
    by (simp add: kennel_config_def)
  have pos: "(0 :: int) < 25" by simp
  from injectMemories_budget_policy [OF kennel_load_index ix kennel_match ne mt pos kennel_reads]
  obtain r where
    "injectMemories posix_host kennel_fs kennel_clock 2000 ''/ws'' ''my dog''
       (Some kennel_config) = Inr r"
    "result_nodes r
       = accept (25 * 4)
           (candidates posix_host kennel_fs 2000 ''/ws'' [owner, walks, vet, puppy, toy])"
    "totalTokens r = \<lceil>real (chars (result_nodes r)) / 4\<rceil>"
    by blast
  moreover have "\<lceil>real (chars [kennel_node owner owner_text, kennel_node vet vet_text]) / 4\<rceil> = 20"
    by (simp add: chars_def kennel_lengths)
  moreover have "map tier [owner, walks, vet, puppy, toy]
      = [Core, Contextual, Contextual, Archival, Archival]"
    "map updatedAt [owner, walks, vet, puppy, toy] = [1009, 1003, 1005, 1013, 1015]"
    by (simp_all add: owner_def walks_def vet_def puppy_def toy_def kennel_entry_def)
  ultimately show ?thesis
    by (simp add: c kennel_accept kennel_sort kennel_load_nodes kennel_lengths)
qed

section \<open>Matching\<close>

text \<open>
  An index is keyed when every node is stored once, under its own \<open>id\<close>. Every index that
  \<open>parseMemoryIndexMarkdown\<close> returns is keyed (\<open>parseMemoryIndexMarkdown_keyed\<close> below).
\<close>

definition index_keyed :: "MemoryIndex \<Rightarrow> bool" where
  "index_keyed index =
     (distinct (map fst (nodes index)) \<and> (\<forall>p\<in>set (nodes index). id' (snd p) = fst p))"

definition own_keys :: "MemoryIndex \<Rightarrow> string set" where
  "own_keys index = fst ` set (nodes index)"

lemma set_obj_entries: "set (obj_entries obj) = set obj"
  by (auto simp: obj_entries_def)

lemma set_obj_values: "set (obj_values obj) = snd ` set obj"
  by (simp add: obj_values_def set_obj_entries)

lemma set_set_add: "set (set_add x xs) = insert x (set xs)"
  by (auto simp: set_add_def)

lemma core_fold_set:
  "set (foldl (\<lambda>acc n. if tier n = Core then set_add (id' n) acc else acc) a ns)
     = set a \<union> id' ` {n \<in> set ns. tier n = Core}"
  by (induction ns arbitrary: a) (auto simp: set_set_add)

lemma set_core_ids:
  "Core \<in> set trs \<Longrightarrow>
   set (core_ids index trs) = id' ` {n \<in> snd ` set (nodes index). tier n = Core}"
  by (simp add: core_ids_def core_fold_set set_obj_values)

lemma obj_lookup_Own: "obj_lookup obj k = Own v \<longleftrightarrow> map_of obj k = Some v"
  by (simp add: obj_lookup_def split: option.splits)

lemma hit_ids:
  "set (fst acc) \<subseteq> set (fst (hit index trs kw acc i))
   \<and> set (fst (hit index trs kw acc i)) \<subseteq> set (fst acc) \<union> own_keys index"
  by (auto simp: hit_def set_set_add own_keys_def obj_lookup_Own split: js_lookup.splits
      dest: map_of_SomeD intro: rev_image_eqI)

lemma hits_ids:
  "set (fst acc) \<subseteq> set (fst (foldl (hit index trs kw) acc is))
   \<and> set (fst (foldl (hit index trs kw) acc is)) \<subseteq> set (fst acc) \<union> own_keys index"
proof (induction "is" arbitrary: acc)
  case Nil
  then show ?case by simp
next
  case (Cons i "is")
  from Cons [of "hit index trs kw acc i"] hit_ids [of acc index trs kw i]
  show ?case by auto
qed

lemma partial_fold_ids:
  "set (fst acc) \<subseteq> set (fst (foldl (\<lambda>a p.
         if js_includes (fst p) keyword \<or> js_includes keyword (fst p)
         then foldl (hit index trs (fst p)) a (snd p) else a) acc ps))
   \<and> set (fst (foldl (\<lambda>a p.
         if js_includes (fst p) keyword \<or> js_includes keyword (fst p)
         then foldl (hit index trs (fst p)) a (snd p) else a) acc ps))
       \<subseteq> set (fst acc) \<union> own_keys index"
proof (induction ps arbitrary: acc)
  case Nil
  then show ?case by simp
next
  case (Cons p ps)
  show ?case
  proof (cases "js_includes (fst p) keyword \<or> js_includes keyword (fst p)")
    case True
    from Cons [of "foldl (hit index trs (fst p)) acc (snd p)"]
      hits_ids [of acc index trs "fst p" "snd p"] True
    show ?thesis by auto
  next
    case False
    with Cons [of acc] show ?thesis by simp
  qed
qed

lemma partial_hits_ids:
  "set (fst acc) \<subseteq> set (fst (partial_hits index trs keyword acc))
   \<and> set (fst (partial_hits index trs keyword acc)) \<subseteq> set (fst acc) \<union> own_keys index"
  unfolding partial_hits_def by (rule partial_fold_ids)

lemma keyword_hits_ids:
  assumes "\<forall>kw\<in>set kws. obj_lookup (keywordMap index) kw \<noteq> Inherited"
  shows "\<exists>r. keyword_hits index trs kws acc = Inr r
    \<and> set (fst acc) \<subseteq> set (fst r) \<and> set (fst r) \<subseteq> set (fst acc) \<union> own_keys index"
  using assms
proof (induction kws arbitrary: acc)
  case Nil
  then show ?case by simp
next
  case (Cons kw kws)
  show ?case
  proof (cases "obj_lookup (keywordMap index) kw")
    case (Own nodeIds)
    let ?a = "partial_hits index trs kw (foldl (hit index trs kw) acc nodeIds)"
    from Cons.IH [of ?a] Cons.prems obtain r where
      "keyword_hits index trs kws ?a = Inr r" "set (fst ?a) \<subseteq> set (fst r)"
      "set (fst r) \<subseteq> set (fst ?a) \<union> own_keys index"
      by auto
    with Own partial_hits_ids [of "foldl (hit index trs kw) acc nodeIds" index trs kw]
      hits_ids [of acc index trs kw nodeIds]
    show ?thesis by auto
  next
    case Inherited
    with Cons.prems show ?thesis by simp
  next
    case Undefined
    let ?a = "partial_hits index trs kw acc"
    from Cons.IH [of ?a] Cons.prems obtain r where
      "keyword_hits index trs kws ?a = Inr r" "set (fst ?a) \<subseteq> set (fst r)"
      "set (fst r) \<subseteq> set (fst ?a) \<union> own_keys index"
      by auto
    with Undefined partial_hits_ids [of acc index trs kw]
    show ?thesis by auto
  qed
qed

lemma entries_of_own:
  assumes "set ids \<subseteq> own_keys index"
  shows "\<exists>es. entries_of index ids = Inr es
    \<and> set es = {n. \<exists>i\<in>set ids. map_of (nodes index) i = Some n}"
  using assms
proof (induction ids)
  case Nil
  then show ?case by simp
next
  case (Cons i ids)
  then obtain es where es: "entries_of index ids = Inr es"
      "set es = {n. \<exists>i\<in>set ids. map_of (nodes index) i = Some n}"
    by auto
  from Cons.prems have "i \<in> fst ` set (nodes index)" by (simp add: own_keys_def)
  then obtain n where n: "map_of (nodes index) i = Some n"
    by (metis map_of_eq_None_iff not_Some_eq)
  then have "obj_lookup (nodes index) i = Own n" by (simp add: obj_lookup_Own)
  with es n show ?case by auto
qed

lemma findMatchingNodes_core:
  assumes "index_keyed index" and "Core \<in> set trs"
    and "\<forall>kw\<in>set kws. obj_lookup (keywordMap index) kw \<noteq> Inherited"
  shows "\<exists>es matched. findMatchingNodes index kws trs = Inr (es, matched)
    \<and> (\<forall>p\<in>set (nodes index). tier (snd p) = Core \<longrightarrow> snd p \<in> set es)"
proof -
  let ?c = "core_ids index trs"
  have c: "set ?c = id' ` {n \<in> snd ` set (nodes index). tier n = Core}"
    using assms(2) by (rule set_core_ids)
  have c_own: "set ?c \<subseteq> own_keys index"
    using assms(1) by (auto simp: c index_keyed_def own_keys_def)
  from keyword_hits_ids [OF assms(3), of trs "(?c, [])"] obtain r where
    r: "keyword_hits index trs kws (?c, []) = Inr r" "set ?c \<subseteq> set (fst r)"
      "set (fst r) \<subseteq> set ?c \<union> own_keys index"
    by auto
  with c_own have "set (fst r) \<subseteq> own_keys index" by auto
  from entries_of_own [OF this] obtain es where
    es: "entries_of index (fst r) = Inr es"
      "set es = {n. \<exists>i\<in>set (fst r). map_of (nodes index) i = Some n}"
    by auto
  have "snd p \<in> set es" if "p \<in> set (nodes index)" "tier (snd p) = Core" for p
  proof -
    have "id' (snd p) \<in> set ?c" using that by (auto simp: c)
    then have "fst p \<in> set (fst r)" using r(2) assms(1) that by (auto simp: index_keyed_def)
    moreover have "map_of (nodes index) (fst p) = Some (snd p)"
      using assms(1) that by (simp add: index_keyed_def)
    ultimately show ?thesis using es(2) by auto
  qed
  with r es show ?thesis by (auto simp: findMatchingNodes_def)
qed

definition scenario_index ::
  "string \<Rightarrow> MemoryIndexEntry \<Rightarrow> string \<Rightarrow> MemoryIndexEntry \<Rightarrow> MemoryIndex" where
  "scenario_index i1 n1 i2 n2 =
     \<lparr>nodes = [(i1, n1), (i2, n2)],
      keywordMap = [(''identity'', [i1]), (''dog'', [i2]), (''pet'', [i2])]\<rparr>"

lemma keywords_dog:
  "extractKeywordsFromContext ''tell me about my dog''
     = [''tell'', ''about'', ''dog'', ''tell about'', ''tell about dog'', ''about dog'']"
  by code_simp

lemma keywords_weather:
  "extractKeywordsFromContext ''what's the weather''
     = [''what'', ''the'', ''weather'', ''what the'', ''what the weather'', ''the weather'']"
  by code_simp

lemma scenario_keywordMap_entries:
  "obj_entries [(''identity'', [i1 :: string]), (''dog'', [i2]), (''pet'', [i2])]
     = [(''identity'', [i1]), (''dog'', [i2]), (''pet'', [i2])]"
  by (simp add: obj_entries_def is_array_index_def is_digit_def)

lemma obj_values_two:
  "obj_values [(a, x), (b, y)] = [x, y] \<or> obj_values [(a, x), (b, y)] = [y, x]"
  by (auto simp: obj_values_def obj_entries_def)

lemma scenario_core_ids:
  assumes "id' n1 = i1" "tier n1 = Core" "tier n2 = Contextual"
  shows "core_ids (scenario_index i1 n1 i2 n2) [Core, Contextual] = [i1]"
  using assms obj_values_two [of i1 n1 i2 n2]
  by (auto simp: core_ids_def scenario_index_def set_add_def)

lemma scenario_dog:
  assumes "i1 \<noteq> i2" "id' n1 = i1" "tier n1 = Core" "id' n2 = i2" "tier n2 = Contextual"
  shows "findMatchingNodes (scenario_index i1 n1 i2 n2)
      (extractKeywordsFromContext ''tell me about my dog'') [Core, Contextual]
    = Inr ([n1, n2], [''dog''])"
proof -
  have "keyword_hits (scenario_index i1 n1 i2 n2) [Core, Contextual]
      [''tell'', ''about'', ''dog'', ''tell about'', ''tell about dog'', ''about dog'']
      ([i1], []) = Inr ([i1, i2], [''dog''])"
    using assms(1,3,5)
    by (simp add: scenario_index_def obj_lookup_def object_prototype_keys_def partial_hits_def
        scenario_keywordMap_entries hit_def set_add_def)
  with assms show ?thesis
    by (simp add: findMatchingNodes_def keywords_dog scenario_core_ids)
      (simp add: scenario_index_def obj_lookup_def)
qed

lemma scenario_weather:
  assumes "i1 \<noteq> i2" "id' n1 = i1" "tier n1 = Core" "id' n2 = i2" "tier n2 = Contextual"
  shows "findMatchingNodes (scenario_index i1 n1 i2 n2)
      (extractKeywordsFromContext ''what's the weather'') [Core, Contextual]
    = Inr ([n1], [])"
proof -
  have "keyword_hits (scenario_index i1 n1 i2 n2) [Core, Contextual]
      [''what'', ''the'', ''weather'', ''what the'', ''what the weather'', ''the weather'']
      ([i1], []) = Inr ([i1], [])"
    using assms(1,3,5)
    by (simp add: scenario_index_def obj_lookup_def object_prototype_keys_def partial_hits_def
        scenario_keywordMap_entries hit_def set_add_def)
  with assms show ?thesis
    by (simp add: findMatchingNodes_def keywords_weather scenario_core_ids)
      (simp add: scenario_index_def obj_lookup_def)
qed

lemma obj_set_keys: "fst ` set (obj_set k v obj) = insert k (fst ` set obj)"
  by (induction obj) auto

lemma obj_set_distinct: "distinct (map fst obj) \<Longrightarrow> distinct (map fst (obj_set k v obj))"
proof (induction obj)
  case Nil
  then show ?case by simp
next
  case (Cons p ps)
  then show ?case using obj_set_keys [of k v ps] by (auto simp: image_iff)
qed

lemma obj_set_values: "p \<in> set (obj_set k v obj) \<Longrightarrow> p = (k, v) \<or> p \<in> set obj"
  by (induction obj) (auto split: if_splits)

lemma putEntry_keyed:
  assumes "index_keyed index" and "putEntry index entry = Inr index'"
  shows "index_keyed index'"
proof -
  from assms(2) obtain km where
    "index' = \<lparr>nodes = obj_set (id' entry) entry (nodes index), keywordMap = km\<rparr>"
    by (auto simp: putEntry_def split: sum.splits)
  with assms(1) show ?thesis
    by (auto simp: index_keyed_def obj_set_distinct dest!: obj_set_values)
qed

lemma parse_line_cases:
  assumes "parse_line clock k st l = Inr st'"
  shows "fst st' = fst st \<or> (\<exists>entry. putEntry (fst st) entry = Inr (fst st'))"
  using assms
  by (auto simp: parse_line_def Let_def split: if_splits option.splits sum.splits)

lemma parse_line_keyed:
  assumes "index_keyed (fst st)" and "parse_line clock k st l = Inr st'"
  shows "index_keyed (fst st')"
  using parse_line_cases [OF assms(2)] assms(1) putEntry_keyed by auto

lemma parse_lines_keyed:
  assumes "index_keyed (fst st)" and "parse_lines clock k st ls = Inr st'"
  shows "index_keyed (fst st')"
  using assms
proof (induction ls arbitrary: st k)
  case Nil
  then show ?case by simp
next
  case (Cons l ls)
  then show ?case by (auto split: sum.splits dest: parse_line_keyed)
qed

lemma parseMemoryIndexMarkdown_keyed:
  "parseMemoryIndexMarkdown clock markdown = Inr index \<Longrightarrow> index_keyed index"
  using parse_lines_keyed [of "(emptyIndex, Contextual)" clock 0 "split_char CHR 0x0A markdown"]
  by (auto simp: parseMemoryIndexMarkdown_def index_keyed_def emptyIndex_def split: sum.splits)

definition scenario_text :: string where
  "scenario_text = join [CHR 0x0A]
     [''# Memory Index'', '''',
      ''## Core Memories'', '''',
      ''- [Who I am](memory/nodes/who_i_am.md) - keywords: identity'', '''',
      ''## Contextual Memories'', '''',
      ''- [Max](memory/nodes/max.md) - keywords: dog, pet'', '''']"

definition scenario_core :: MemoryIndexEntry where
  "scenario_core =
     \<lparr>id' = ''who_i_am'', title = ''Who I am'', keywords = [''identity''], tier = Core,
      createdAt = 0, updatedAt = 0, filePath = ''memory/nodes/who_i_am.md''\<rparr>"

definition scenario_pet :: MemoryIndexEntry where
  "scenario_pet =
     \<lparr>id' = ''max'', title = ''Max'', keywords = [''dog'', ''pet''], tier = Contextual,
      createdAt = 0, updatedAt = 0, filePath = ''memory/nodes/max.md''\<rparr>"

lemma scenario_parse:
  "parseMemoryIndexMarkdown (\<lambda>k. 0) scenario_text
     = Inr (scenario_index ''who_i_am'' scenario_core ''max'' scenario_pet)"
  by code_simp

lemma keywords_constructor:
  "extractKeywordsFromContext ''call the constructor''
     = [''call'', ''the'', ''constructor'', ''call the'', ''call the constructor'',
        ''the constructor'']"
  by code_simp

lemma scenario_constructor:
  "keyword_hits (scenario_index i1 n1 i2 n2) [Core, Contextual]
      [''call'', ''the'', ''constructor'', ''call the'', ''call the constructor'',
        ''the constructor'']
      acc = Inl TypeError"
  by (simp add: scenario_index_def obj_lookup_def object_prototype_keys_def)

text \<open>
  C8, at the index of the scenario (one core node with the keyword identity, one contextual
  node with the keywords dog and pet), the tiers core and contextual, and the context text
  "call the constructor". The keyword map is a plain object: \<open>index.keywordMap[keyword]\<close>
  for the keyword constructor is the function that every object inherits, the loop
  \<open>for (const nodeId of nodeIds)\<close> over it throws a TypeError, and \<open>findMatchingNodes\<close> returns
  no node, the core node included. For keywords that name no inherited property every core
  node is returned (\<open>findMatchingNodes_core\<close>), and the two calls of the scenario give what
  the claim says: "tell me about my dog" yields both nodes and the matched keywords [dog],
  and "what's the weather" yields the core node alone.
\<close>

theorem findMatchingNodes_inherited_keyword:
  "parseMemoryIndexMarkdown (\<lambda>k. 0) scenario_text
     = Inr (scenario_index ''who_i_am'' scenario_core ''max'' scenario_pet)
   \<and> tier scenario_core = Core
   \<and> ''constructor'' \<in> set (extractKeywordsFromContext ''call the constructor'')
   \<and> obj_lookup (keywordMap (scenario_index ''who_i_am'' scenario_core ''max'' scenario_pet))
        ''constructor'' = Inherited
   \<and> findMatchingNodes (scenario_index ''who_i_am'' scenario_core ''max'' scenario_pet)
        (extractKeywordsFromContext ''call the constructor'') [Core, Contextual]
      = Inl TypeError
   \<and> findMatchingNodes (scenario_index ''who_i_am'' scenario_core ''max'' scenario_pet)
        (extractKeywordsFromContext ''tell me about my dog'') [Core, Contextual]
      = Inr ([scenario_core, scenario_pet], [''dog''])
   \<and> findMatchingNodes (scenario_index ''who_i_am'' scenario_core ''max'' scenario_pet)
        (extractKeywordsFromContext ''what's the weather'') [Core, Contextual]
      = Inr ([scenario_core], [])"
proof -
  have ids: "''who_i_am'' \<noteq> ''max''" "id' scenario_core = ''who_i_am''"
    "tier scenario_core = Core" "id' scenario_pet = ''max''" "tier scenario_pet = Contextual"
    by (simp_all add: scenario_core_def scenario_pet_def)
  have inherited: "obj_lookup
      (keywordMap (scenario_index ''who_i_am'' scenario_core ''max'' scenario_pet))
      ''constructor'' = Inherited"
    by (simp add: scenario_index_def obj_lookup_def object_prototype_keys_def)
  have thrown: "findMatchingNodes (scenario_index ''who_i_am'' scenario_core ''max'' scenario_pet)
        (extractKeywordsFromContext ''call the constructor'') [Core, Contextual]
      = Inl TypeError"
    unfolding findMatchingNodes_def keywords_constructor scenario_constructor by simp
  show ?thesis
    using scenario_parse ids(3) inherited thrown scenario_dog [OF ids] scenario_weather [OF ids]
    by (simp add: keywords_constructor)
qed

section \<open>The index file: serializing and parsing again\<close>

subsection \<open>Splitting and trimming\<close>







subsection \<open>Entries that the index file keeps as they are\<close>






subsection \<open>The line of an entry, parsed\<close>
































subsection \<open>The order of the entries\<close>













subsection \<open>The round trip\<close>

















subsection \<open>An index with a capital letter in a keyword\<close>



subsection \<open>An index with names that are numbers\<close>





section \<open>Creating a node twice\<close>

text \<open>
  Two calls of \<open>createMemoryNode\<close> with one title, the keyword dog and the default tier, in
  a workspace that is empty before the first call: the ids of the two nodes returned, and
  the lines of the index file after the first and after the second call.
\<close>

definition first_times :: creation_times where
  "first_times =
     \<lparr>at_start = \<lparr>getTime = 1767254700000, toISOString = ''2026-01-01T08:05:00.000Z'',
                  getHours = 8, getDate = 1\<rparr>,
      at_parse = (\<lambda>k. 1767254700001 + int k),
      at_created = 1767254700002, at_updated = 1767254700002, at_accessed = 1767254700003\<rparr>"

definition second_times :: creation_times where
  "second_times =
     \<lparr>at_start = \<lparr>getTime = 1767256200000, toISOString = ''2026-01-01T08:30:00.000Z'',
                  getHours = 8, getDate = 1\<rparr>,
      at_parse = (\<lambda>k. 1767256200001 + int k),
      at_created = 1767256200002, at_updated = 1767256200002, at_accessed = 1767256200003\<rparr>"

definition created_twice ::
  "string \<Rightarrow> (string \<times> string \<times> string list option \<times> string list option) option" where
  "created_twice ttl =
     (case createMemoryNode posix_host empty_fs first_times ''/ws'' ''memory/index.md'' ttl
             [''dog''] ''A dog.'' None of
        Inl e \<Rightarrow> None
      | Inr (node1, fs1) \<Rightarrow>
          (case createMemoryNode posix_host fs1 second_times ''/ws'' ''memory/index.md'' ttl
                  [''dog''] ''Still a dog.'' None of
             Inl e \<Rightarrow> None
           | Inr (node2, fs2) \<Rightarrow>
               Some (id' node1, id' node2,
                     map_option (split_char CHR 0x0A) (files fs1 ''/ws/memory/index.md''),
                     map_option (split_char CHR 0x0A) (files fs2 ''/ws/memory/index.md''))))"

text \<open>
  What holds for every title: the id of the node returned is computed from the title
  alone, and the assignment \<open>index.nodes[id] = entry\<close> puts the entry under its id in place
  of an entry that the index in memory holds under that id, without a second entry for it.
\<close>

lemma createMemoryNode_id:
  assumes "createMemoryNode h fs tm workspaceDir ipath ttl kws body topt = Inr (node, fs')"
  shows "id' node = makeId ttl"
  using assms
  by (auto simp: createMemoryNode_def Let_def split: sum.splits)

lemma obj_set_present:
  "k \<in> fst ` set obj \<Longrightarrow> map fst (obj_set k v obj) = map fst obj"
  by (induction obj) auto

lemma obj_set_map_of: "distinct (map fst obj) \<Longrightarrow> map_of (obj_set k v obj) k = Some v"
  by (induction obj) (auto simp: image_iff)

lemma putEntry_overwrites:
  assumes "putEntry index entry = Inr index'" and "distinct (map fst (nodes index))"
  shows "map_of (nodes index') (id' entry) = Some entry
    \<and> distinct (map fst (nodes index'))
    \<and> (id' entry \<in> fst ` set (nodes index)
         \<longrightarrow> map fst (nodes index') = map fst (nodes index))"
proof -
  from assms(1) have "nodes index' = obj_set (id' entry) entry (nodes index)"
    by (auto simp: putEntry_def split: sum.splits)
  with assms(2) show ?thesis
    by (simp add: obj_set_map_of obj_set_distinct obj_set_present)
qed

text \<open>
  C7, at the title " Max" (a blank before the name). Both calls compute the id \<open>_max\<close>, so
  the id is the same both times. But the index is kept as text and the id is not part of
  it: when the second call loads the index, the parser trims the title, computes the id
  \<open>max\<close> and holds the entry of the first call under that id. The assignment
  \<open>index.nodes[id] = entry\<close> of the second call then finds nothing under \<open>_max\<close> to
  overwrite, and the index that is saved lists the node twice. At the title "Max The Dog"
  of the claim the second call overwrites the entry and the index keeps one line. The
  parser trims the title before it computes the id, and \<open>createMemoryNode\<close> does not.
\<close>

theorem createMemoryNode_twice:
  "created_twice '' Max''
     = Some (''_max'', ''_max'',
         Some [''# Memory Index'', '''',
               ''> Auto-generated by Core Memory System. Edit with care.'', '''',
               ''## Contextual Memories'', '''',
               ''- [ Max](memory/nodes/_max.md) - keywords: dog'', ''''],
         Some [''# Memory Index'', '''',
               ''> Auto-generated by Core Memory System. Edit with care.'', '''',
               ''## Contextual Memories'', '''',
               ''- [Max](memory/nodes/_max.md) - keywords: dog'',
               ''- [ Max](memory/nodes/_max.md) - keywords: dog'', ''''])
   \<and> created_twice ''Max The Dog''
     = Some (''max_the_dog'', ''max_the_dog'',
         Some [''# Memory Index'', '''',
               ''> Auto-generated by Core Memory System. Edit with care.'', '''',
               ''## Contextual Memories'', '''',
               ''- [Max The Dog](memory/nodes/max_the_dog.md) - keywords: dog'', ''''],
         Some [''# Memory Index'', '''',
               ''> Auto-generated by Core Memory System. Edit with care.'', '''',
               ''## Contextual Memories'', '''',
               ''- [Max The Dog](memory/nodes/max_the_dog.md) - keywords: dog'', ''''])"
  by code_simp

section \<open>Research topics: what the ranking counts\<close>

definition hobby_text :: string where
  "hobby_text = join [CHR 0x0A]
     [''## Contextual Memories'',
      ''- [Hobbies](memory/nodes/hobbies.md) - keywords: chess, piano, rowing, baking, origami, archery, pottery, sailing, knitting, karate'',
      ''- [Rex](memory/nodes/rex.md) - keywords: dog'',
      ''- [Vet](memory/nodes/vet.md) - keywords: dog'']"

definition sample_yesterday :: js_date where
  "sample_yesterday =
     \<lparr>getTime = 1767168300000, toISOString = ''2025-12-31T08:05:00.000Z'', getHours = 8,
      getDate = 31\<rparr>"

text \<open>
  C4, at an index of three nodes: one with ten keywords, and two that share the keyword
  dog. The keyword map lists two nodes for dog and one node for every other keyword, so dog
  is the keyword with the most referencing nodes. The count kept by \<open>detectResearchTopics\<close>
  is 10 for each keyword of the first node (the node is visited once for each of its ten
  keywords, and every visit counts all ten) and 2 for dog, and the ten topics returned are
  the keywords of the first node: dog is not among them.
\<close>

theorem detectResearchTopics_hobbies:
  "(case parseMemoryIndexMarkdown (\<lambda>k. 0) hobby_text of
      Inl e \<Rightarrow> None
    | Inr index \<Rightarrow>
        Some (map (\<lambda>p. (fst p, length (snd p))) (keywordMap index),
              keywordFrequency index,
              detectResearchTopics posix_host empty_fs sample_morning sample_yesterday ''/ws''
                (Some index)))
   = Some ([(''chess'', 1), (''piano'', 1), (''rowing'', 1), (''baking'', 1), (''origami'', 1),
            (''archery'', 1), (''pottery'', 1), (''sailing'', 1), (''knitting'', 1),
            (''karate'', 1), (''dog'', 2)],
           Inr [(''chess'', 10), (''piano'', 10), (''rowing'', 10), (''baking'', 10),
                (''origami'', 10), (''archery'', 10), (''pottery'', 10), (''sailing'', 10),
                (''knitting'', 10), (''karate'', 10), (''dog'', 2)],
           Inr [''chess'', ''piano'', ''rowing'', ''baking'', ''origami'', ''archery'',
                ''pottery'', ''sailing'', ''knitting'', ''karate''])"
  by code_simp

end
